theory Spec2Isabelle
  imports Complex_Main "HOL-Library.Word"
begin

section \<open>The launcher of zzuf (myfork.c)\<close>

text \<open>
  The file \<^verbatim>\<open>src/myfork.c\<close> is compiled in one of two shapes. Where \<^verbatim>\<open>HAVE_FORK\<close>
  is defined, \<^verbatim>\<open>run_process\<close> forks; the child remaps its pipes, applies the resource
  limits, sets the environment and calls \<^verbatim>\<open>execvp\<close>. Where only \<^verbatim>\<open>HAVE_WINDOWS_H\<close> is
  defined, it creates the target suspended and calls \<^verbatim>\<open>dll_inject\<close>. Both shapes are
  modelled, each as the code that the preprocessor leaves.

  The operating system is modelled by explicit state (an environment, a descriptor
  table, the memory of the target) and by the answers it gives (which calls fail, what
  a read returns), which are arguments of the model.
\<close>

subsection \<open>Text conversions of the C library\<close>

text \<open>
  \<^verbatim>\<open>sprintf(buf, "%i", n)\<close> prints an \<^verbatim>\<open>int\<close>, which has 32 bits on the systems the
  launcher is built for: \<open>printf_i\<close> takes the 32 bits that are passed and prints the
  number they stand for as a signed integer, in decimal digits with a minus sign when
  it is negative (\<open>fmt_i\<close>).
\<close>

definition digit_char :: "nat \<Rightarrow> char" where
  "digit_char d = ''0123456789'' ! (d mod 10)"

function dec_digits :: "nat \<Rightarrow> string" where
  "dec_digits n = (if n < 10 then [digit_char n] else dec_digits (n div 10) @ [digit_char (n mod 10)])"
  by pat_completeness auto
termination
  by (relation "measure (\<lambda>n. n)") auto

definition fmt_i :: "int \<Rightarrow> string" where
  "fmt_i n = (if n < 0 then CHR ''-'' # dec_digits (nat (- n)) else dec_digits (nat n))"

definition printf_i :: "32 word \<Rightarrow> string" where
  "printf_i w = fmt_i (sint w)"

subsection \<open>Configuration and process state\<close>

text \<open>
  \<^verbatim>\<open>struct opts\<close> and \<^verbatim>\<open>struct child\<close> are declared in headers that are not among
  the sources; the records hold the fields that \<^verbatim>\<open>myfork.c\<close> reads and writes. Only
  the enumerator \<^verbatim>\<open>OPMODE_PRELOAD\<close> occurs in the file; \<open>OPMODE_COPY\<close> stands for every
  other mode. The integer fields are machine integers of 32 bits: \<open>maxcpu\<close> and
  \<open>maxmem\<close> are compared with 0 as signed integers and their arithmetic wraps around
  (signed overflow is undefined in C; the wrap-around is what the compiled code does),
  and \<open>seed\<close> is the 32 bits that are passed to \<^verbatim>\<open>%i\<close>, whether the field is declared
  signed or unsigned. \<open>oldargv0\<close> is \<^verbatim>\<open>opts->oldargv[0]\<close>, the only element of that
  vector the file reads.
\<close>

datatype opmode = OPMODE_PRELOAD | OPMODE_COPY

text \<open>
  A \<^verbatim>\<open>double\<close>: \<open>Finite s m e\<close> is the number \<open>(-1)^s * m * 2^e\<close>; the infinities and
  the NaNs carry their sign bit \<open>s\<close> (set for a negative value).
\<close>

datatype c_double = Finite bool nat int | Infinite bool | NaN bool

record opts =
  opmode :: opmode
  oldargv0 :: string
  seed :: "32 word"
  minratio :: c_double
  maxratio :: c_double
  maxmem :: "32 word"
  maxcpu :: "32 word"

datatype fdobj = PipeRead nat | PipeWrite nat | OtherFile nat

datatype resource = ZZUF_RLIMIT_MEM | ZZUF_RLIMIT_CPU

datatype syscall =
    Close int
  | Dup2 int int
  | Setrlimit resource "64 word" "64 word"
  | Execvp string "string list"

text \<open>
  The state of one process, as far as the launcher touches it: the environment, the
  descriptor table, and the calls made so far, oldest first.
\<close>

record proc =
  env :: "string \<rightharpoonup> string"
  fdt :: "int \<rightharpoonup> fdobj"
  calls :: "syscall list"

definition setenv :: "string \<Rightarrow> string \<Rightarrow> proc \<Rightarrow> proc" where
  \<comment> \<open>always called with overwrite = 1\<close>
  "setenv name val p = p\<lparr>env := (env p)(name \<mapsto> val)\<rparr>"

definition getenv :: "proc \<Rightarrow> string \<Rightarrow> string option" where
  "getenv p name = env p name"

definition setrlimit :: "resource \<Rightarrow> 64 word \<Rightarrow> 64 word \<Rightarrow> proc \<Rightarrow> proc" where
  \<comment> \<open>the return value is ignored by the caller: only the request is recorded\<close>
  "setrlimit r cur mx p = p\<lparr>calls := calls p @ [Setrlimit r cur mx]\<rparr>"

subsection \<open>Resource limits (lines 262 to 280)\<close>

text \<open>
  The two fields of \<^verbatim>\<open>struct rlimit\<close> are of the type \<^verbatim>\<open>rlim_t\<close>, unsigned with 64
  bits. The right-hand sides of lines 266, 267, 276 and 277 are computed in 32 bits
  and then converted: \<open>scast\<close> extends the sign, so a negative result becomes a number
  near \<open>2^64\<close>.
\<close>

definition set_rlimit_mem :: "opts \<Rightarrow> proc \<Rightarrow> proc" where
  "set_rlimit_mem opts p =
     (if 0 \<le> sint (maxmem opts)
      then setrlimit ZZUF_RLIMIT_MEM (scast (maxmem opts * 1048576)) (scast (maxmem opts * 1048576)) p
      else p)"

definition set_rlimit_cpu :: "opts \<Rightarrow> proc \<Rightarrow> proc" where
  "set_rlimit_cpu opts p =
     (if 0 \<le> sint (maxcpu opts)
      then setrlimit ZZUF_RLIMIT_CPU (scast (maxcpu opts)) (scast (maxcpu opts + 5)) p
      else p)"

text \<open>
  \<^verbatim>\<open>sprintf(buf, "%g", x)\<close>, as the C standard describes it for the default precision
  6: the value is rounded to 6 significant decimal digits; with \<open>X\<close> the decimal
  exponent of the rounded value, the fixed notation is used when \<open>-4 \<le> X < 6\<close> and
  the exponent notation otherwise; trailing zeros of the fraction are removed, and the
  point with them when no fraction is left. All of it is exact arithmetic on the value
  \<open>a / b\<close> of the double.

  The standard leaves four things to the C library, which are the fields of \<open>libc\<close>:
  the least number of digits of the exponent (two in the standard, three in older
  Windows runtimes), where a value halfway between two results goes (to the even one,
  or away from zero), and the texts of the infinities and of the NaNs, by their sign
  bit. \<open>glibc\<close> is the GNU library and \<open>msvcrt\<close> the Windows runtime
  \<^verbatim>\<open>msvcrt.dll\<close>.
\<close>

record libc =
  exp_min_digits :: nat
  ties_away :: bool
  inf_text :: "bool \<Rightarrow> string"
  nan_text :: "bool \<Rightarrow> string"

definition glibc :: libc where
  "glibc =
     \<lparr>exp_min_digits = 2, ties_away = False,
      inf_text = (\<lambda>s. if s then ''-inf'' else ''inf''),
      nan_text = (\<lambda>s. if s then ''-nan'' else ''nan'')\<rparr>"

definition msvcrt :: libc where
  "msvcrt =
     \<lparr>exp_min_digits = 3, ties_away = True,
      inf_text = (\<lambda>s. if s then ''-1.#INF'' else ''1.#INF''),
      nan_text = (\<lambda>s. if s then ''-1.#IND'' else ''1.#QNAN'')\<rparr>"

definition strip_zeros :: "string \<Rightarrow> string" where
  "strip_zeros s = rev (dropWhile (\<lambda>c. c = CHR ''0'') (rev s))"

definition with_fraction :: "string \<Rightarrow> string \<Rightarrow> string" where
  "with_fraction ip fr = (let f = strip_zeros fr in if f = [] then ip else ip @ ''.'' @ f)"

definition scale10 :: "nat \<Rightarrow> nat \<Rightarrow> int \<Rightarrow> nat \<times> nat" where
  \<comment> \<open>the fraction \<open>a / b * 10^k\<close>\<close>
  "scale10 a b k = (if k \<ge> 0 then (a * 10 ^ nat k, b) else (a, b * 10 ^ nat (- k)))"

definition exp10 :: "nat \<Rightarrow> nat \<Rightarrow> int" where
  \<comment> \<open>the decimal exponent of \<open>a / b\<close>: the \<open>x\<close> with \<open>10^x \<le> a / b < 10^(x+1)\<close>\<close>
  "exp10 a b =
     (let k = int (length (dec_digits a)) - int (length (dec_digits b));
          nd = scale10 a b (- k)
      in if fst nd \<ge> snd nd then k else k - 1)"

definition round_nearest :: "bool \<Rightarrow> nat \<Rightarrow> nat \<Rightarrow> nat" where
  \<comment> \<open>\<open>n / d\<close> rounded to the nearest integer; \<open>away\<close> decides the halfway case\<close>
  "round_nearest away n d =
     (let k = n div d; r = n mod d
      in if 2 * r < d then k else if 2 * r > d then k + 1
         else if away \<or> odd k then k + 1 else k)"

definition round6 :: "libc \<Rightarrow> nat \<Rightarrow> nat \<Rightarrow> nat \<times> int" where
  \<comment> \<open>the six digits, as a number from 100000 to 999999, and the decimal exponent\<close>
  "round6 lc a b =
     (let x0 = exp10 a b;
          nd = scale10 a b (5 - x0);
          r = round_nearest (ties_away lc) (fst nd) (snd nd)
      in if r = 1000000 then (100000, x0 + 1) else (r, x0))"

definition exp_digits :: "libc \<Rightarrow> nat \<Rightarrow> string" where
  "exp_digits lc k =
     replicate (exp_min_digits lc - length (dec_digits k)) (CHR ''0'') @ dec_digits k"

definition fmt_g_pos :: "libc \<Rightarrow> nat \<Rightarrow> nat \<Rightarrow> string" where
  "fmt_g_pos lc a b =
     (let nx = round6 lc a b;
          x = snd nx;
          ds = dec_digits (fst nx)
      in if - 4 \<le> x \<and> x < 6 then
           (if x \<ge> 0 then with_fraction (take (nat x + 1) ds) (drop (nat x + 1) ds)
            else with_fraction ''0'' (replicate (nat (- x - 1)) (CHR ''0'') @ ds))
         else with_fraction (take 1 ds) (drop 1 ds) @ ''e'' @ (if x < 0 then ''-'' else ''+'')
                @ exp_digits lc (nat \<bar>x\<bar>))"

fun fmt_g :: "libc \<Rightarrow> c_double \<Rightarrow> string" where
  "fmt_g lc (Finite s m e) =
     (if s then ''-'' else []) @
     (if m = 0 then ''0''
      else if e \<ge> 0 then fmt_g_pos lc (m * 2 ^ nat e) 1
      else fmt_g_pos lc m (2 ^ nat (- e)))"
| "fmt_g lc (Infinite s) = inf_text lc s"
| "fmt_g lc (NaN s) = nan_text lc s"

text \<open>\<^verbatim>\<open>strrchr(s, c)\<close>: the position of the last \<open>c\<close> in \<open>s\<close>, if there is one.\<close>

fun strrchr :: "string \<Rightarrow> char \<Rightarrow> nat option" where
  "strrchr [] c = None"
| "strrchr (x # xs) c =
     (case strrchr xs c of
        Some i \<Rightarrow> Some (Suc i)
      | None \<Rightarrow> if x = c then Some 0 else None)"

subsection \<open>Build configuration\<close>

text \<open>
  The preprocessor picks the name of the preload variable and the suffix
  \<^verbatim>\<open>EXTRAINFO\<close> by platform (lines 209 to 224). \<^verbatim>\<open>LIBDIR\<close>, \<^verbatim>\<open>SONAME\<close> and
  \<^verbatim>\<open>DEBUG_FILENO\<close> come from headers that are not among the sources, and
  \<^verbatim>\<open>LT_OBJDIR\<close> from libtool (line 58 gives its default): they are fields of the build
  configuration, as is the C library that the program is linked with.
\<close>

datatype platform = Apple | OSF | Sun_i386 | Other_unix

record build =
  platform :: platform
  LIBDIR :: string
  SONAME :: string
  LT_OBJDIR :: string
  DEBUG_FILENO :: int
  LIBC :: libc

fun EXTRAINFO :: "platform \<Rightarrow> string" where
  "EXTRAINFO Apple = []"
| "EXTRAINFO OSF = '':DEFAULT''"
| "EXTRAINFO Sun_i386 = []"
| "EXTRAINFO Other_unix = []"

fun PRELOAD :: "platform \<Rightarrow> string" where
  "PRELOAD Apple = ''DYLD_INSERT_LIBRARIES''"
| "PRELOAD OSF = ''_RLD_LIST''"
| "PRELOAD Sun_i386 = ''LD_PRELOAD_32''"
| "PRELOAD Other_unix = ''LD_PRELOAD''"

definition STDOUT_FILENO :: int where "STDOUT_FILENO = 1"
definition STDERR_FILENO :: int where "STDERR_FILENO = 2"

subsection \<open>The child after \<^verbatim>\<open>fork\<close> (lines 244 to 341)\<close>

definition close_fd :: "int \<Rightarrow> proc \<Rightarrow> proc" where
  \<comment> \<open>\<^verbatim>\<open>close(fd)\<close>\<close>
  "close_fd fd p = p\<lparr>fdt := (fdt p)(fd := None), calls := calls p @ [Close fd]\<rparr>"

definition dup2 :: "int \<Rightarrow> int \<Rightarrow> proc \<Rightarrow> proc" where
  \<comment> \<open>fails, changing nothing, when \<open>old\<close> is not open\<close>
  "dup2 old new p =
     p\<lparr>fdt := (case fdt p old of None \<Rightarrow> fdt p | Some f \<Rightarrow> (fdt p)(new \<mapsto> f)),
       calls := calls p @ [Dup2 old new]\<rparr>"

type_synonym pipes = "nat \<Rightarrow> int \<times> int"

definition fds :: "build \<Rightarrow> nat \<Rightarrow> int" where
  \<comment> \<open>\<^verbatim>\<open>{ DEBUG_FILENO, STDERR_FILENO, STDOUT_FILENO }\<close>\<close>
  "fds cfg j = (if j = 0 then DEBUG_FILENO cfg else if j = 1 then STDERR_FILENO else STDOUT_FILENO)"

definition remap_body :: "build \<Rightarrow> nat \<Rightarrow> pipes \<times> proc \<Rightarrow> pipes \<times> proc" where
  "remap_body cfg j s =
     (let pipes = fst s;
          p1 = close_fd (fst (pipes j)) (snd s)
      in if snd (pipes j) \<noteq> fds cfg j
         then (pipes(j := (fst (pipes j), fds cfg j)),
               close_fd (snd (pipes j)) (dup2 (snd (pipes j)) (fds cfg j) p1))
         else (pipes, p1))"

text \<open>\<^verbatim>\<open>for (int j = 3; j--; )\<close>: the body runs with \<open>j\<close> = 2, 1, 0.\<close>

fun remap_loop :: "build \<Rightarrow> nat \<Rightarrow> pipes \<times> proc \<Rightarrow> pipes \<times> proc" where
  "remap_loop cfg 0 s = s"
| "remap_loop cfg (Suc j) s = remap_loop cfg j (remap_body cfg j s)"

definition set_environment :: "libc \<Rightarrow> opts \<Rightarrow> int \<Rightarrow> proc \<Rightarrow> proc" where
  \<comment> \<open>lines 282 to 295; \<open>debugfd\<close> is the number given to \<^verbatim>\<open>%i\<close> for \<^verbatim>\<open>ZZUF_DEBUGFD\<close>\<close>
  "set_environment lc opts debugfd p =
     setenv ''ZZUF_MAXRATIO'' (fmt_g lc (maxratio opts))
       (setenv ''ZZUF_MINRATIO'' (fmt_g lc (minratio opts))
         (setenv ''ZZUF_SEED'' (printf_i (seed opts))
           (setenv ''ZZUF_DEBUGFD'' (printf_i (word_of_int debugfd)) p)))"

definition resolve_libpath :: "build \<Rightarrow> (string \<Rightarrow> bool) \<Rightarrow> string \<Rightarrow> string" where
  \<comment> \<open>lines 299 to 315; \<open>readable f\<close> is \<^verbatim>\<open>access(f, R_OK) >= 0\<close>\<close>
  "resolve_libpath cfg readable argv0 =
     (case strrchr argv0 (CHR ''/'') of
        Some i \<Rightarrow>
          (let libpath = take (Suc i) argv0 @ LT_OBJDIR cfg @ SONAME cfg
           in if \<not> readable libpath then LIBDIR cfg @ ''/'' @ SONAME cfg else libpath)
      | None \<Rightarrow> LIBDIR cfg @ ''/'' @ SONAME cfg)"

definition preload_merge :: "string option \<Rightarrow> string \<Rightarrow> string" where
  \<comment> \<open>lines 321 to 328; \<open>tmp\<close> is the result of \<^verbatim>\<open>getenv(PRELOAD)\<close>\<close>
  "preload_merge tmp libpath =
     (case tmp of
        None \<Rightarrow> libpath
      | Some t \<Rightarrow> if t \<noteq> [] then t @ '':'' @ libpath else libpath)"

definition run_process_child ::
  "build \<Rightarrow> (string \<Rightarrow> bool) \<Rightarrow> string list \<Rightarrow> opts \<Rightarrow> pipes \<Rightarrow> proc \<Rightarrow> proc" where
  "run_process_child cfg readable newargv opts pipes p =
     (let s1 = remap_loop cfg 3 (pipes, p);
          p2 = set_rlimit_cpu opts (set_rlimit_mem opts (snd s1));
          p3 = set_environment (LIBC cfg) opts (snd (fst s1 0)) p2;
          libpath = resolve_libpath cfg readable (oldargv0 opts) @ EXTRAINFO (platform cfg);
          libpath' = preload_merge (getenv p3 (PRELOAD (platform cfg))) libpath;
          p4 = (if opmode opts = OPMODE_PRELOAD
                then setenv (PRELOAD (platform cfg)) libpath' p3 else p3)
      in p4\<lparr>calls := calls p4 @ [Execvp (case newargv of [] \<Rightarrow> [] | a # _ \<Rightarrow> a) newargv]\<rparr>)"

subsection \<open>\<^verbatim>\<open>run_process\<close> with \<^verbatim>\<open>fork\<close> (lines 206 to 343)\<close>

text \<open>
  \<open>pid\<close> is what \<^verbatim>\<open>fork\<close> returns in the calling process: negative when it fails,
  the positive process id of the child otherwise. The result is the value returned
  there, the state of the calling process, and (when a child was made) the state in
  which the child calls \<^verbatim>\<open>execvp\<close>. The child starts as a copy of the caller, with
  its own list of calls; what it does when \<^verbatim>\<open>execvp\<close> fails (it exits) is not part
  of the model.
\<close>

definition parent_close :: "pipes \<Rightarrow> proc \<Rightarrow> proc" where
  \<comment> \<open>lines 238 and 239, \<open>j\<close> = 2, 1, 0\<close>
  "parent_close pipes p = close_fd (snd (pipes 0)) (close_fd (snd (pipes 1)) (close_fd (snd (pipes 2)) p))"

definition run_process_fork ::
  "build \<Rightarrow> (string \<Rightarrow> bool) \<Rightarrow> int \<Rightarrow> string list \<Rightarrow> opts \<Rightarrow> pipes \<Rightarrow> proc
     \<Rightarrow> int \<times> proc \<times> proc option" where
  "run_process_fork cfg readable pid newargv opts pipes p =
     (let p0 = (if platform cfg = Apple \<and> opmode opts = OPMODE_PRELOAD
                then setenv ''DYLD_FORCE_FLAT_NAMESPACE'' ''1'' p else p)
      in if pid < 0 then (- 1, p0, None)
         else (pid, parent_close pipes p0,
               Some (run_process_child cfg readable newargv opts pipes (p0\<lparr>calls := []\<rparr>))))"

subsection \<open>\<^verbatim>\<open>myfork\<close> (lines 91 to 120), with \<^verbatim>\<open>mypipe\<close> as \<^verbatim>\<open>pipe\<close> (line 129)\<close>

record child =
  pid :: int
  fd :: "nat \<Rightarrow> int"
  newargv :: "string list"

text \<open>
  \<open>pipe_res i\<close> is the answer to the call for channel \<open>i\<close>: \<open>None\<close> when \<^verbatim>\<open>pipe\<close>
  fails, the two new descriptors otherwise. The loop stops at the first failure; the
  flag tells whether all calls succeeded.
\<close>

fun pipe_loop ::
  "(nat \<Rightarrow> (int \<times> int) option) \<Rightarrow> nat list \<Rightarrow> pipes \<times> proc \<Rightarrow> bool \<times> pipes \<times> proc" where
  "pipe_loop pipe_res [] s = (True, s)"
| "pipe_loop pipe_res (i # rest) s =
     (case pipe_res i of
        None \<Rightarrow> (False, s)
      | Some rw \<Rightarrow>
          pipe_loop pipe_res rest
            ((fst s)(i := rw),
             (snd s)\<lparr>fdt := (fdt (snd s))(fst rw \<mapsto> PipeRead i, snd rw \<mapsto> PipeWrite i)\<rparr>))"

definition myfork ::
  "build \<Rightarrow> (string \<Rightarrow> bool) \<Rightarrow> (nat \<Rightarrow> (int \<times> int) option) \<Rightarrow> int \<Rightarrow> child \<Rightarrow> opts \<Rightarrow> proc
     \<Rightarrow> int \<times> child \<times> proc \<times> proc option" where
  "myfork cfg readable pipe_res fork_res child opts p =
     (case pipe_loop pipe_res [0, 1, 2] (\<lambda>i. (0, 0), p) of
        (False, pipefds, p1) \<Rightarrow> (- 1, child, p1, None)
      | (True, pipefds, p1) \<Rightarrow>
          (case run_process_fork cfg readable fork_res (newargv child) opts pipefds p1 of
             (ret, p2, ch) \<Rightarrow>
               if ret < 0 then (- 1, child, p2, ch)
               else (0,
                     child\<lparr>pid := ret, fd := (\<lambda>i. if i < 3 then fst (pipefds i) else fd child i)\<rparr>,
                     close_fd (snd (pipefds 2)) (close_fd (snd (pipefds 1)) (close_fd (snd (pipefds 0)) p2)),
                     ch)))"

section \<open>The build without \<^verbatim>\<open>fork\<close> (\<^verbatim>\<open>HAVE_WINDOWS_H\<close>)\<close>

text \<open>
  Addresses and registers of the target are words of the pointer size: \<open>32 word\<close>
  under \<^verbatim>\<open>_M_IX86\<close>, \<open>64 word\<close> under \<^verbatim>\<open>_M_AMD64\<close>. The memory of the target
  is a function from addresses to bytes.
\<close>

type_synonym byte = "8 word"

type_synonym 'a memory = "'a word \<Rightarrow> byte"

subsection \<open>\<^verbatim>\<open>get_proc_address\<close> (lines 564 to 627)\<close>

text \<open>
  \<^verbatim>\<open>tolower\<close> on the letters A to Z, and \<^verbatim>\<open>stricmp\<close> reduced to what the caller tests:
  \<open>True\<close> when the result is not 0, that is when the strings differ in more than the
  case of letters.
\<close>

definition tolower :: "char \<Rightarrow> char" where
  "tolower c =
     (case map_of (zip ''ABCDEFGHIJKLMNOPQRSTUVWXYZ'' ''abcdefghijklmnopqrstuvwxyz'') c of
        Some l \<Rightarrow> l
      | None \<Rightarrow> c)"

definition stricmp :: "string \<Rightarrow> string \<Rightarrow> bool" where
  "stricmp s t = (map tolower s \<noteq> map tolower t)"

record (overloaded) 'a MODULEENTRY32 =
  szModule :: string
  modBaseAddr :: "'a word"

record IMAGE_EXPORT_DIRECTORY =
  NumberOfNames :: "32 word"
  AddressOfFunctions :: "32 word"
  AddressOfNames :: "32 word"
  AddressOfNameOrdinals :: "32 word"

text \<open>
  What the calls of \<^verbatim>\<open>ReadProcessMemory\<close> in \<^verbatim>\<open>get_proc_address\<close> leave in their
  buffers, by the address read. Their return values are not tested by the code, so a
  failed read is a buffer with some content, which these functions cover as well. The
  layout of the headers is that of \<^verbatim>\<open>windows.h\<close>: each field the code uses is one
  function. \<open>rd_bytes a n\<close> are the \<open>n\<close> characters read at \<open>a\<close> into the buffer
  of line 601, which has room for 1024 of them; the only name the launcher asks for is
  \<^verbatim>\<open>LoadLibraryA\<close>.
\<close>

record (overloaded) 'a remote_image =
  rd_e_lfanew :: "'a word \<Rightarrow> 32 word"
  rd_export_va :: "'a word \<Rightarrow> 32 word"
  rd_expdir :: "'a word \<Rightarrow> IMAGE_EXPORT_DIRECTORY"
  rd_u32 :: "'a word \<Rightarrow> 32 word"
  rd_u16 :: "'a word \<Rightarrow> 16 word"
  rd_bytes :: "'a word \<Rightarrow> nat \<Rightarrow> string"

text \<open>
  The inner loop (lines 594 to 621) over the indices \<open>i\<close> still to visit: the address
  of the function when a name matches, \<open>None\<close> when the loop ends without a match.
\<close>

fun scan_names ::
  "'a::len remote_image \<Rightarrow> 'a word \<Rightarrow> IMAGE_EXPORT_DIRECTORY \<Rightarrow> string \<Rightarrow> nat list \<Rightarrow> 'a word option" where
  "scan_names img base expdir func [] = None"
| "scan_names img base expdir func (i # rest) =
     (let nameaddr = rd_u32 img (base + ucast (AddressOfNames expdir) + of_nat i * 4);
          buf = rd_bytes img (base + ucast nameaddr) (length func + 1)
      in if buf \<noteq> func @ [CHR 0x00] then scan_names img base expdir func rest
         else
           (let j = rd_u16 img (base + ucast (AddressOfNameOrdinals expdir) + of_nat i * 2);
                funcaddr = rd_u32 img (base + ucast (AddressOfFunctions expdir) + ucast j * 4)
            in Some (base + ucast funcaddr)))"

text \<open>
  The outer loop (lines 572 to 622) over the modules of the snapshot. The result
  \<open>0\<close> is the null pointer.
\<close>

fun module_loop :: "'a::len remote_image \<Rightarrow> string \<Rightarrow> 'a MODULEENTRY32 list \<Rightarrow> 'a word" where
  "module_loop img func [] = 0"
| "module_loop img func (entry # rest) =
     (let base = modBaseAddr entry
      in if stricmp ''kernel32.dll'' (szModule entry) then module_loop img func rest
         else
           (let e_lfanew = rd_e_lfanew img base;
                exportaddr = rd_export_va img (base + scast e_lfanew)
            in if exportaddr = 0 then module_loop img func rest
               else
                 (let expdir = rd_expdir img (base + ucast exportaddr)
                  in case scan_names img base expdir func [0 ..< nat (sint (NumberOfNames expdir))] of
                       Some a \<Rightarrow> a
                     | None \<Rightarrow> module_loop img func rest)))"

definition get_proc_address :: "'a::len remote_image \<Rightarrow> 'a MODULEENTRY32 list \<Rightarrow> string \<Rightarrow> 'a word" where
  \<comment> \<open>the module list is what \<^verbatim>\<open>Module32First\<close> and \<^verbatim>\<open>Module32Next\<close> enumerate\<close>
  "get_proc_address img snapshot func = module_loop img func snapshot"

subsection \<open>\<^verbatim>\<open>dll_inject\<close> (lines 415 to 562)\<close>

text \<open>
  The three registers of \<^verbatim>\<open>CONTEXT\<close> that the code names through its macros:
  \<^verbatim>\<open>Rip\<close>, \<^verbatim>\<open>Rsp\<close>, \<^verbatim>\<open>Rcx\<close> under \<^verbatim>\<open>_M_AMD64\<close> and \<^verbatim>\<open>Eip\<close>, \<^verbatim>\<open>Esp\<close>, \<^verbatim>\<open>Eax\<close> under
  \<^verbatim>\<open>_M_IX86\<close>.
\<close>

record (overloaded) 'a CONTEXT =
  InstructionPointer :: "'a word"
  StackPointer :: "'a word"
  LoaderRegister :: "'a word"

text \<open>The places where the launcher calls the system, by what the call is for.\<close>

datatype site =
    GetContext          \<comment> \<open>\<^verbatim>\<open>GetThreadContext\<close>, line 490\<close>
  | ReadEntry           \<comment> \<open>\<^verbatim>\<open>ReadProcessMemory\<close>, line 495\<close>
  | WriteLoop           \<comment> \<open>\<^verbatim>\<open>WriteProcessMemory\<close>, line 497\<close>
  | FlushLoop           \<comment> \<open>\<^verbatim>\<open>FlushInstructionCache\<close>, line 499\<close>
  | ResumeForLoader     \<comment> \<open>\<^verbatim>\<open>ResumeThread\<close>, line 501\<close>
  | PollContext         \<comment> \<open>\<^verbatim>\<open>GetThreadContext\<close>, line 507\<close>
  | Suspend             \<comment> \<open>\<^verbatim>\<open>SuspendThread\<close>, line 512\<close>
  | Resolve             \<comment> \<open>\<^verbatim>\<open>get_proc_address\<close>, line 516\<close>
  | Alloc               \<comment> \<open>\<^verbatim>\<open>VirtualAllocEx\<close>, line 519\<close>
  | WriteStack          \<comment> \<open>\<^verbatim>\<open>WriteProcessMemory\<close>, line 524\<close>
  | SetContext          \<comment> \<open>\<^verbatim>\<open>SetThreadContext\<close>, line 527\<close>
  | Malloc              \<comment> \<open>\<^verbatim>\<open>malloc\<close>, line 531\<close>
  | WritePayload        \<comment> \<open>\<^verbatim>\<open>WriteProcessMemory\<close>, line 537\<close>
  | RestoreEntry        \<comment> \<open>\<^verbatim>\<open>WriteProcessMemory\<close>, line 541\<close>
  | FlushPayload        \<comment> \<open>\<^verbatim>\<open>FlushInstructionCache\<close>, line 544\<close>
  | FlushEntry          \<comment> \<open>\<^verbatim>\<open>FlushInstructionCache\<close>, line 546\<close>
  | Create              \<comment> \<open>\<^verbatim>\<open>CreateProcess\<close>, line 372\<close>
  | Terminate           \<comment> \<open>\<^verbatim>\<open>TerminateProcess\<close>, lines 396 and 405\<close>
  | FinalResume         \<comment> \<open>\<^verbatim>\<open>ResumeThread\<close>, line 402\<close>

text \<open>The calls made, in order, with the address and the bytes of a memory access.\<close>

datatype ('p, 'c) api_event =
    Api site
  | MemRead site 'p nat
  | MemWrite site 'p "byte list"
  | CtxSet 'c

type_synonym 'a event = "('a word, 'a CONTEXT) api_event"

text \<open>
  The answers of the system. \<open>get_thread_context k\<close> is the answer to the \<open>k\<close>-th
  call of \<^verbatim>\<open>GetThreadContext\<close> (\<open>None\<close>: the call fails); call 0 is the one of line
  490. \<open>ok s\<close> tells whether the call at \<open>s\<close> succeeds; for a memory access that
  includes the full count of bytes. \<open>virtual_alloc\<close> is the address returned by
  \<^verbatim>\<open>VirtualAllocEx\<close>, 0 for the null pointer. \<open>target_writes\<close> is what the target
  does to its memory while its thread runs between lines 501 and 512. \<open>crt\<close> is the C
  runtime of the launcher, which prints the numbers of the environment.
\<close>

record (overloaded) 'a winos =
  get_thread_context :: "nat \<Rightarrow> 'a CONTEXT option"
  ok :: "site \<Rightarrow> bool"
  virtual_alloc :: "'a word"
  target_writes :: "'a memory \<Rightarrow> 'a memory"
  snapshot :: "'a MODULEENTRY32 list"
  target_image :: "'a remote_image"
  crt :: libc

record (overloaded) 'a inj_result =
  res :: int
  mem_after :: "'a memory"
  trace :: "'a event list"

definition failed :: "'a::len memory \<Rightarrow> 'a event list \<Rightarrow> 'a inj_result" where
  \<comment> \<open>\<^verbatim>\<open>goto _return\<close> with \<open>res\<close> still -1\<close>
  "failed m t = \<lparr>res = - 1, mem_after = m, trace = t\<rparr>"

fun write_bytes :: "'a::len memory \<Rightarrow> 'a word \<Rightarrow> byte list \<Rightarrow> 'a memory" where
  "write_bytes m a [] = m"
| "write_bytes m a (b # bs) = write_bytes (m(a := b)) (a + 1) bs"

definition le_bytes :: "nat \<Rightarrow> 'a::len word \<Rightarrow> byte list" where
  \<comment> \<open>the object representation of a pointer: least significant byte first\<close>
  "le_bytes n w = map (\<lambda>i. ucast (drop_bit (8 * i) w)) [0 ..< n]"

definition wait_code :: "byte list" where
  \<comment> \<open>\<^verbatim>\<open>jmp $-1\<close>, line 469\<close>
  "wait_code = [0xEB, 0xFE]"

definition ldr64 :: "byte list" where
  \<comment> \<open>lines 424 to 438; the placeholder is 8 underscores\<close>
  "ldr64 =
     [0x55] @ [0x48, 0x89, 0xE5] @ [0x48, 0x83, 0xEC, 0x20] @ [0x48, 0x83, 0xE4, 0xF0] @
     [0x48, 0x8D, 0x0D, 0x14, 0x00, 0x00, 0x00] @
     [0x48, 0xB8, 0x5F, 0x5F, 0x5F, 0x5F, 0x5F, 0x5F, 0x5F, 0x5F] @
     [0xFF, 0xD0] @ [0x48, 0x85, 0xC0] @ [0x75, 0x01] @ [0xCC] @ [0xC9] @ [0xC3]"

definition ldr32 :: "byte list" where
  \<comment> \<open>lines 449 to 461; the placeholder is 4 underscores\<close>
  "ldr32 =
     [0x60] @ [0xEB, 0x0E] @ [0xB8, 0x5F, 0x5F, 0x5F, 0x5F] @ [0xFF, 0xD0] @ [0x85, 0xC0] @
     [0x75, 0x01] @ [0xCC] @ [0x61] @ [0xC3] @ [0xE8, 0xED, 0xFF, 0xFF, 0xFF]"

text \<open>Lines 489 to 502: up to the first \<^verbatim>\<open>ResumeThread\<close>.\<close>

definition dll_inject_entry ::
  "'a::len winos \<Rightarrow> 'a memory
     \<Rightarrow> 'a inj_result + ('a CONTEXT \<times> 'a word \<times> byte list \<times> 'a memory \<times> 'a event list)" where
  "dll_inject_entry os m =
     (case get_thread_context os 0 of
        None \<Rightarrow> Inl (failed m [Api GetContext])
      | Some ctxt \<Rightarrow>
          (let oep = LoaderRegister ctxt;
               t1 = [Api GetContext, MemRead ReadEntry oep 2]
           in if \<not> ok os ReadEntry then Inl (failed m t1)
              else
                (let orig_data = [m oep, m (oep + 1)];
                     t2 = t1 @ [MemWrite WriteLoop oep wait_code]
                 in if \<not> ok os WriteLoop then Inl (failed m t2)
                    else
                      (let m1 = write_bytes m oep wait_code;
                           t3 = t2 @ [Api FlushLoop]
                       in if \<not> ok os FlushLoop then Inl (failed m1 t3)
                          else
                            (let t4 = t3 @ [Api ResumeForLoader]
                             in if \<not> ok os ResumeForLoader then Inl (failed m1 t4)
                                else Inr (ctxt, oep, orig_data, m1, t4))))))"

text \<open>
  Lines 505 to 510: the loop that waits for the thread to reach the entry point. It
  has no bound: where the answers never show the entry point, the value is \<open>None\<close>.
  Otherwise the result is the number of the next call of \<^verbatim>\<open>GetThreadContext\<close> and
  the last context, or \<open>None\<close> in its place when the call failed.
\<close>

partial_function (option) wait_for_entry ::
  "(nat \<Rightarrow> 'a::len CONTEXT option) \<Rightarrow> 'a word \<Rightarrow> nat \<Rightarrow> 'a CONTEXT \<Rightarrow> (nat \<times> 'a CONTEXT option) option" where
  "wait_for_entry gtc oep k ctxt =
     (if oep \<noteq> InstructionPointer ctxt
      then (case gtc k of
              None \<Rightarrow> Some (Suc k, None)
            | Some c \<Rightarrow> wait_for_entry gtc oep (Suc k) c)
      else Some (k, Some ctxt))"

text \<open>
  Lines 512 to 549. \<open>ldr\<close> is the payload of the architecture (without the final null of
  the literal) and \<open>lloff\<close> is \<^verbatim>\<open>LoadLibraryAOffset\<close>; \<^verbatim>\<open>sizeof(oep)\<close> is the size of
  a pointer.
\<close>

definition dll_inject_hijack ::
  "byte list \<Rightarrow> nat \<Rightarrow> 'a::len winos \<Rightarrow> string \<Rightarrow> 'a CONTEXT \<Rightarrow> 'a word \<Rightarrow> byte list
     \<Rightarrow> 'a memory \<Rightarrow> 'a event list \<Rightarrow> 'a inj_result" where
  "dll_inject_hijack ldr lloff os lib ctxt oep orig_data m t =
     (let psize = LENGTH('a) div 8;
          t1 = t @ [Api Suspend]
      in if \<not> ok os Suspend then failed m t1
         else
      (let rldlib = get_proc_address (target_image os) (snapshot os) ''LoadLibraryA'';
           t2 = t1 @ [Api Resolve]
       in if rldlib = 0 then failed m t2
          else
      (let rpl = virtual_alloc os;
           t3 = t2 @ [Api Alloc]
       in if rpl = 0 then failed m t3
          else
      (let ctxt1 = ctxt\<lparr>StackPointer := StackPointer ctxt - of_nat psize\<rparr>;
           t4 = t3 @ [MemWrite WriteStack (StackPointer ctxt1) (le_bytes psize oep)]
       in if \<not> ok os WriteStack then failed m t4
          else
      (let m1 = write_bytes m (StackPointer ctxt1) (le_bytes psize oep);
           ctxt2 = ctxt1\<lparr>InstructionPointer := rpl\<rparr>;
           t5 = t4 @ [CtxSet ctxt2]
       in if \<not> ok os SetContext then failed m1 t5
          else if \<not> ok os Malloc then failed m1 (t5 @ [Api Malloc])
          else
      (let pl = take lloff ldr @ le_bytes psize rldlib @ drop (lloff + psize) ldr
                  @ map of_char lib @ [0];
           t6 = t5 @ [Api Malloc, MemWrite WritePayload rpl pl]
       in if \<not> ok os WritePayload then failed m1 t6
          else
      (let m2 = write_bytes m1 rpl pl;
           t7 = t6 @ [MemWrite RestoreEntry oep orig_data]
       in if \<not> ok os RestoreEntry then failed m2 t7
          else
      (let m3 = write_bytes m2 oep orig_data;
           t8 = t7 @ [Api FlushPayload]
       in if \<not> ok os FlushPayload then failed m3 t8
          else
      (let t9 = t8 @ [Api FlushEntry]
       in if \<not> ok os FlushEntry then failed m3 t9
          else \<lparr>res = 0, mem_after = m3, trace = t9\<rparr>)))))))))"

text \<open>
  The whole function: \<open>None\<close> when it never returns. The calls of the waiting loop
  are in the trace as \<open>Api PollContext\<close>, one for each call made.
\<close>

definition dll_inject ::
  "byte list \<Rightarrow> nat \<Rightarrow> 'a::len winos \<Rightarrow> string \<Rightarrow> 'a memory \<Rightarrow> 'a inj_result option" where
  "dll_inject ldr lloff os lib m =
     (case dll_inject_entry os m of
        Inl r \<Rightarrow> Some r
      | Inr (ctxt, oep, orig_data, m1, t) \<Rightarrow>
          (case wait_for_entry (get_thread_context os) oep 1 ctxt of
             None \<Rightarrow> None
           | Some (k, None) \<Rightarrow>
               Some (failed (target_writes os m1) (t @ replicate (k - 1) (Api PollContext)))
           | Some (k, Some ctxt') \<Rightarrow>
               Some (dll_inject_hijack ldr lloff os lib ctxt' oep orig_data
                       (target_writes os m1) (t @ replicate (k - 1) (Api PollContext)))))"

definition dll_inject_amd64 :: "64 winos \<Rightarrow> string \<Rightarrow> 64 memory \<Rightarrow> 64 inj_result option" where
  \<comment> \<open>\<^verbatim>\<open>_M_AMD64\<close>: \<^verbatim>\<open>LoadLibraryAOffset\<close> is 0x15\<close>
  "dll_inject_amd64 = dll_inject ldr64 0x15"

definition dll_inject_x86 :: "32 winos \<Rightarrow> string \<Rightarrow> 32 memory \<Rightarrow> 32 inj_result option" where
  \<comment> \<open>\<^verbatim>\<open>_M_IX86\<close>: \<^verbatim>\<open>LoadLibraryAOffset\<close> is 0x04\<close>
  "dll_inject_x86 = dll_inject ldr32 0x04"

subsection \<open>\<^verbatim>\<open>run_process\<close> with \<^verbatim>\<open>CreateProcess\<close> (lines 282 to 295 and 346 to 409)\<close>

record PROCESS_INFORMATION =
  hProcess :: int
  hThread :: int
  dwProcessId :: int

record win_child = child +
  process_handle :: int

text \<open>
  \<open>inject\<close> is \<^verbatim>\<open>dll_inject\<close> of the architecture. \<open>pinfo\<close> is what \<^verbatim>\<open>CreateProcess\<close>
  leaves in its last argument and \<open>get_osfhandle\<close> is \<^verbatim>\<open>_get_osfhandle\<close>. The
  environment is set in the launcher itself, from which the target takes it. The text
  of the command line (lines 357 to 368) has no part in what follows and is left out.
  The result is \<open>None\<close> when \<^verbatim>\<open>dll_inject\<close> never returns.
\<close>

definition run_process_win ::
  "('a::len winos \<Rightarrow> string \<Rightarrow> 'a memory \<Rightarrow> 'a inj_result option) \<Rightarrow> 'a winos \<Rightarrow> string
     \<Rightarrow> (int \<Rightarrow> int) \<Rightarrow> PROCESS_INFORMATION \<Rightarrow> opts \<Rightarrow> win_child \<Rightarrow> pipes \<Rightarrow> proc \<Rightarrow> 'a memory
     \<Rightarrow> (int \<times> win_child \<times> proc \<times> 'a memory \<times> 'a event list) option" where
  "run_process_win inject os soname get_osfhandle pinfo opts child pipes p m =
     (let p1 = set_environment (crt os) opts (get_osfhandle (snd (pipes 0))) p;
          child1 = child\<lparr>pid := dwProcessId pinfo, process_handle := hProcess pinfo\<rparr>;
          t0 = [Api Create]
      in if \<not> ok os Create then Some (- 1, child1, p1, m, t0)
         else
           (case inject os soname m of
              None \<Rightarrow> None
            | Some r \<Rightarrow>
                if res r < 0
                then Some (- 1, child1, p1, mem_after r, t0 @ trace r @ [Api Terminate])
                else
                  (let t1 = t0 @ trace r @ [Api FinalResume]
                   in if \<not> ok os FinalResume
                      then Some (- 1, child1, p1, mem_after r, t1 @ [Api Terminate])
                      else Some (hProcess pinfo, child1, p1, mem_after r, t1))))"

definition run_process_amd64 where
  "run_process_amd64 = run_process_win dll_inject_amd64"

definition run_process_x86 where
  "run_process_x86 = run_process_win dll_inject_x86"

section \<open>Notions used to state the properties\<close>

fun is_cpu_limit :: "syscall \<Rightarrow> bool" where
  "is_cpu_limit (Setrlimit ZZUF_RLIMIT_CPU c m) = True"
| "is_cpu_limit _ = False"

text \<open>
  The calls of the body of the loop of lines 250 to 259 for channel \<open>j\<close>, from the
  descriptors that the array holds when the loop starts.
\<close>

definition remap_calls :: "build \<Rightarrow> pipes \<Rightarrow> nat \<Rightarrow> syscall list" where
  "remap_calls cfg pipes j =
     Close (fst (pipes j)) #
     (if snd (pipes j) \<noteq> fds cfg j
      then [Dup2 (snd (pipes j)) (fds cfg j), Close (snd (pipes j))] else [])"

text \<open>The finite values of the IEEE double format, and the number a double stands for.\<close>

fun is_binary64 :: "c_double \<Rightarrow> bool" where
  "is_binary64 (Finite s m e) = (m < 2 ^ 53 \<and> - 1074 \<le> e \<and> e \<le> 971)"
| "is_binary64 (Infinite s) = True"
| "is_binary64 (NaN s) = True"

fun double_value :: "c_double \<Rightarrow> rat option" where
  "double_value (Finite s m e) =
     Some ((if s then - 1 else 1) * (if e \<ge> 0 then of_nat m * 2 ^ nat e else of_nat m / 2 ^ nat (- e)))"
| "double_value (Infinite s) = None"
| "double_value (NaN s) = None"

text \<open>
  A module exports a name when it has an export directory and one of the names of the
  directory is that name, read as the code reads them.
\<close>

definition exports_name :: "'a::len remote_image \<Rightarrow> 'a MODULEENTRY32 \<Rightarrow> string \<Rightarrow> bool" where
  "exports_name img entry func =
     (let base = modBaseAddr entry;
          exportaddr = rd_export_va img (base + scast (rd_e_lfanew img base));
          expdir = rd_expdir img (base + ucast exportaddr)
      in exportaddr \<noteq> 0 \<and>
         list_ex
           (\<lambda>i. rd_bytes img
                  (base + ucast (rd_u32 img (base + ucast (AddressOfNames expdir) + of_nat i * 4)))
                  (length func + 1) = func @ [CHR 0x00])
           [0 ..< nat (sint (NumberOfNames expdir))])"

definition is_kernel32 :: "'a::len MODULEENTRY32 \<Rightarrow> bool" where
  "is_kernel32 entry = (map tolower (szModule entry) = ''kernel32.dll'')"

subsection \<open>Concrete launches\<close>

text \<open>
  A build for Linux, a launch in preload mode with seed 42 and ratios 0.1 and 0.9 (as
  doubles), a launcher whose descriptors 3 to 8 are the ends of the three pipes, and
  the same launch in another mode.
\<close>

definition example_build :: build where
  "example_build =
     \<lparr>platform = Other_unix, LIBDIR = ''/usr/lib'', SONAME = ''libzzuf.so'',
      LT_OBJDIR = ''.libs/'', DEBUG_FILENO = 17, LIBC = glibc\<rparr>"

definition example_opts :: opts where
  "example_opts =
     \<lparr>opmode = OPMODE_PRELOAD, oldargv0 = ''./dir/prog'', seed = 42,
      minratio = Finite False 3602879701896397 (- 55),
      maxratio = Finite False 8106479329266893 (- 53),
      maxmem = - 1, maxcpu = 10\<rparr>"

definition example_pipes :: pipes where
  "example_pipes = (\<lambda>i. (3 + 2 * int i, 4 + 2 * int i))"

definition example_proc :: proc where
  "example_proc =
     \<lparr>env = [''LD_PRELOAD'' \<mapsto> ''/opt/x.so''],
      fdt = [3 \<mapsto> PipeRead 0, 4 \<mapsto> PipeWrite 0, 5 \<mapsto> PipeRead 1, 6 \<mapsto> PipeWrite 1,
             7 \<mapsto> PipeRead 2, 8 \<mapsto> PipeWrite 2],
      calls = []\<rparr>"

definition empty_proc :: proc where
  "empty_proc = \<lparr>env = Map.empty, fdt = Map.empty, calls = []\<rparr>"

definition copy_opts :: opts where
  "copy_opts = example_opts\<lparr>opmode := OPMODE_COPY\<rparr>"

definition all_pipes_ok :: "nat \<Rightarrow> (int \<times> int) option" where
  \<comment> \<open>every call of \<^verbatim>\<open>pipe\<close> succeeds, with the descriptors 3 to 8\<close>
  "all_pipes_ok i = Some (3 + 2 * int i, 4 + 2 * int i)"

definition example_child :: child where
  "example_child = \<lparr>pid = 0, fd = (\<lambda>i. - 1), newargv = [''prog'', ''-x'']\<rparr>"

text \<open>
  The same launch with the largest CPU cap and with the largest seed of an unsigned
  field, the same build for macOS, and a launcher that was started with its standard
  descriptors closed, so that the pipes are the descriptors 0 to 5.
\<close>

definition max_cpu_opts :: opts where
  "max_cpu_opts = example_opts\<lparr>maxcpu := 2147483647\<rparr>"

definition big_seed_opts :: opts where
  "big_seed_opts = example_opts\<lparr>seed := 4294967295\<rparr>"

definition apple_build :: build where
  "apple_build = example_build\<lparr>platform := Apple\<rparr>"

definition low_pipes :: pipes where
  "low_pipes = (\<lambda>i. (2 * int i, 2 * int i + 1))"

definition low_proc :: proc where
  "low_proc =
     \<lparr>env = Map.empty,
      fdt = [0 \<mapsto> PipeRead 0, 1 \<mapsto> PipeWrite 0, 2 \<mapsto> PipeRead 1, 3 \<mapsto> PipeWrite 1,
             4 \<mapsto> PipeRead 2, 5 \<mapsto> PipeWrite 2],
      calls = []\<rparr>"

text \<open>The writes that restore the entry point (line 541).\<close>

fun is_restore :: "('p, 'c) api_event \<Rightarrow> bool" where
  "is_restore (MemWrite RestoreEntry a d) = True"
| "is_restore _ = False"

subsection \<open>A concrete target\<close>

text \<open>
  A 64-bit target with two modules. Both answer every read of their headers alike and
  list \<^verbatim>\<open>LoadLibraryA\<close> among their names; only the second is called kernel32.dll,
  in capitals. The entry point is at 0x140001000, where the bytes 0x48 and 0x83 are.
  Every call succeeds and the thread is at the entry point from the first poll on. In
  \<open>failing_os\<close> the allocation of line 519 returns the null pointer.
\<close>

definition example_image :: "64 remote_image" where
  "example_image =
     \<lparr>rd_e_lfanew = (\<lambda>a. 0x80), rd_export_va = (\<lambda>a. 0x1000),
      rd_expdir = (\<lambda>a. \<lparr>NumberOfNames = 2, AddressOfFunctions = 0x3000,
                           AddressOfNames = 0x2000, AddressOfNameOrdinals = 0x2800\<rparr>),
      rd_u32 = (\<lambda>a. 0x4000), rd_u16 = (\<lambda>a. 0),
      rd_bytes = (\<lambda>a n. take n (''LoadLibraryA'' @ [CHR 0x00]))\<rparr>"

definition example_ntdll :: "64 MODULEENTRY32" where
  "example_ntdll = \<lparr>szModule = ''ntdll.dll'', modBaseAddr = 0x77000000\<rparr>"

definition example_kernel32 :: "64 MODULEENTRY32" where
  "example_kernel32 = \<lparr>szModule = ''KERNEL32.DLL'', modBaseAddr = 0x76000000\<rparr>"

definition example_mem :: "64 memory" where
  "example_mem = (\<lambda>a. if a = 0x140001000 then 0x48 else if a = 0x140001001 then 0x83 else 0)"

definition example_os :: "64 winos" where
  "example_os =
     \<lparr>get_thread_context =
        (\<lambda>k. Some \<lparr>InstructionPointer = (if k = 0 then 0x77001000 else 0x140001000),
                     StackPointer = 0x10000, LoaderRegister = 0x140001000\<rparr>),
      ok = (\<lambda>s. True), virtual_alloc = 0x20000, target_writes = (\<lambda>m. m),
      snapshot = [example_ntdll, example_kernel32], target_image = example_image,
      crt = msvcrt\<rparr>"

definition failing_os :: "64 winos" where
  "failing_os = example_os\<lparr>virtual_alloc := 0\<rparr>"

definition example_pinfo :: PROCESS_INFORMATION where
  "example_pinfo = \<lparr>hProcess = 100, hThread = 104, dwProcessId = 4242\<rparr>"

definition example_win_child :: win_child where
  "example_win_child = \<lparr>pid = 0, fd = (\<lambda>i. - 1), newargv = [''prog.exe'', ''-x''], process_handle = 0\<rparr>"

text \<open>Two launches that differ in the minimum ratio only: 0.5 and 0.5 + 2^-30.\<close>

definition half_opts :: opts where
  "half_opts = example_opts\<lparr>minratio := Finite False 1 (- 1)\<rparr>"

definition above_half_opts :: opts where
  "above_half_opts = example_opts\<lparr>minratio := Finite False 536870913 (- 30)\<rparr>"

section \<open>Properties of the build with \<^verbatim>\<open>fork\<close>\<close>

subsection \<open>What each step leaves alone\<close>

lemma calls_close_fd: "calls (close_fd n p) = calls p @ [Close n]"
  by (simp add: close_fd_def)

lemma calls_dup2: "calls (dup2 a b p) = calls p @ [Dup2 a b]"
  by (simp add: dup2_def)

lemma env_close_fd: "env (close_fd n p) = env p"
  by (simp add: close_fd_def)

lemma env_dup2: "env (dup2 a b p) = env p"
  by (simp add: dup2_def)

lemma env_remap_body: "env (snd (remap_body cfg j s)) = env (snd s)"
  by (simp add: remap_body_def Let_def env_close_fd env_dup2)

lemma env_remap_loop: "env (snd (remap_loop cfg n s)) = env (snd s)"
  by (induction n arbitrary: s) (simp_all add: env_remap_body)

lemma remap_body_no_cpu:
  "filter is_cpu_limit (calls (snd (remap_body cfg j s))) = filter is_cpu_limit (calls (snd s))"
  by (simp add: remap_body_def Let_def calls_close_fd calls_dup2)

lemma remap_loop_no_cpu:
  "filter is_cpu_limit (calls (snd (remap_loop cfg n s))) = filter is_cpu_limit (calls (snd s))"
  by (induction n arbitrary: s) (simp_all add: remap_body_no_cpu)

lemma calls_setenv: "calls (setenv n v p) = calls p"
  by (simp add: setenv_def)

lemma calls_set_environment: "calls (set_environment lc opts d p) = calls p"
  by (simp add: set_environment_def calls_setenv)

lemma calls_child:
  "calls (run_process_child cfg readable argv opts pipes p) =
     calls (set_rlimit_cpu opts (set_rlimit_mem opts (snd (remap_loop cfg 3 (pipes, p)))))
       @ [Execvp (case argv of [] \<Rightarrow> [] | a # _ \<Rightarrow> a) argv]"
  by (simp add: run_process_child_def Let_def calls_setenv calls_set_environment)

lemma env_set_rlimit_mem: "env (set_rlimit_mem opts p) = env p"
  by (simp add: set_rlimit_mem_def setrlimit_def)

lemma env_set_rlimit_cpu: "env (set_rlimit_cpu opts p) = env p"
  by (simp add: set_rlimit_cpu_def setrlimit_def)

lemma env_set_environment:
  "env (set_environment lc opts d p) =
     (env p)(''ZZUF_DEBUGFD'' \<mapsto> printf_i (word_of_int d), ''ZZUF_SEED'' \<mapsto> printf_i (seed opts),
             ''ZZUF_MINRATIO'' \<mapsto> fmt_g lc (minratio opts), ''ZZUF_MAXRATIO'' \<mapsto> fmt_g lc (maxratio opts))"
  by (simp add: set_environment_def setenv_def)

lemma PRELOAD_not_ZZUF:
  "PRELOAD pl \<noteq> ''ZZUF_DEBUGFD''" "PRELOAD pl \<noteq> ''ZZUF_SEED''"
  "PRELOAD pl \<noteq> ''ZZUF_MINRATIO''" "PRELOAD pl \<noteq> ''ZZUF_MAXRATIO''"
  by (cases pl; simp)+

lemma PRELOAD_not_flat: "PRELOAD pl \<noteq> ''DYLD_FORCE_FLAT_NAMESPACE''"
  by (cases pl; simp)

lemma remap_body_pipes:
  "fst (remap_body cfg j s) = (fst s)(j := (fst (fst s j), fds cfg j))"
  by (auto simp add: remap_body_def Let_def fun_eq_iff prod_eq_iff)

lemma remap_loop_3:
  "remap_loop cfg 3 s = remap_body cfg 0 (remap_body cfg 1 (remap_body cfg 2 s))"
  by (simp add: numeral_3_eq_3 numeral_2_eq_2)

lemma remap_loop_debug_fd: "snd (fst (remap_loop cfg 3 s) 0) = DEBUG_FILENO cfg"
  by (simp add: remap_loop_3 remap_body_pipes fds_def)

text \<open>The environment in which the child calls \<^verbatim>\<open>execvp\<close>, from that of the launcher.\<close>

lemma env_child:
  "env (run_process_child cfg readable argv opts pipes p) =
     (let e = (env p)(''ZZUF_DEBUGFD'' \<mapsto> printf_i (word_of_int (DEBUG_FILENO cfg)),
             ''ZZUF_SEED'' \<mapsto> printf_i (seed opts),
             ''ZZUF_MINRATIO'' \<mapsto> fmt_g (LIBC cfg) (minratio opts),
             ''ZZUF_MAXRATIO'' \<mapsto> fmt_g (LIBC cfg) (maxratio opts))
      in if opmode opts = OPMODE_PRELOAD
         then e(PRELOAD (platform cfg) \<mapsto>
                  preload_merge (env p (PRELOAD (platform cfg)))
                    (resolve_libpath cfg readable (oldargv0 opts) @ EXTRAINFO (platform cfg)))
         else e)"
  by (simp add: run_process_child_def Let_def setenv_def getenv_def env_set_environment
        env_set_rlimit_cpu env_set_rlimit_mem env_remap_loop remap_loop_debug_fd PRELOAD_not_ZZUF)

lemma strrchr_None: "strrchr s c = None \<longleftrightarrow> c \<notin> set s"
  by (induction s) (auto split: option.splits)

lemma strrchr_last: "c \<notin> set base \<Longrightarrow> strrchr (dir @ c # base) c = Some (length dir)"
  by (induction dir) (auto simp: strrchr_None split: option.splits)

text \<open>Conversions of machine integers.\<close>

lemma scast_nonneg: "0 \<le> sint (w :: 32 word) \<Longrightarrow> uint (scast w :: 64 word) = sint w"
proof -
  assume a: "0 \<le> sint w"
  have b: "sint w < 2 ^ 31"
    using sint_lt [of w] by simp
  have "uint (scast w :: 64 word) = take_bit 64 (sint w)"
    by transfer simp
  also have "\<dots> = sint w"
    using a b by (simp add: take_bit_int_eq_self)
  finally show ?thesis .
qed

lemma sint_add5:
  "0 \<le> sint (w :: 32 word) \<Longrightarrow> sint w \<le> 2147483642 \<Longrightarrow> sint (w + 5) = sint w + 5"
proof -
  assume a: "0 \<le> sint w" and b: "sint w \<le> 2147483642"
  have "sint (w + 5) = signed_take_bit 31 (sint w + sint (5 :: 32 word))"
    by (simp add: sint_word_ariths)
  also have "\<dots> = sint w + 5"
    using a b by (simp add: signed_take_bit_int_eq_self)
  finally show ?thesis .
qed

text \<open>Evaluation of the text conversions on the numbers of the concrete launches.\<close>

lemmas fmt_g_eval = fmt_g_pos_def round6_def exp10_def scale10_def round_nearest_def with_fraction_def
  strip_zeros_def digit_char_def exp_digits_def glibc_def Let_def

lemma printf_i_42: "printf_i 42 = ''42''"
  by (simp add: printf_i_def fmt_i_def digit_char_def)

lemma printf_i_17: "printf_i 17 = ''17''"
  by (simp add: printf_i_def fmt_i_def digit_char_def)

lemma printf_i_big: "printf_i 4294967295 = ''-1''"
  by (simp add: printf_i_def fmt_i_def digit_char_def)

lemma fmt_g_tenth: "fmt_g glibc (Finite False 3602879701896397 (- 55)) = ''0.1''"
  by (simp add: fmt_g_eval)

lemma fmt_g_nine_tenths: "fmt_g glibc (Finite False 8106479329266893 (- 53)) = ''0.9''"
  by (simp add: fmt_g_eval)

lemma fmt_g_tenth_msvcrt: "fmt_g msvcrt (Finite False 3602879701896397 (- 55)) = ''0.1''"
  by (simp add: fmt_g_eval msvcrt_def)

lemma fmt_g_nine_tenths_msvcrt: "fmt_g msvcrt (Finite False 8106479329266893 (- 53)) = ''0.9''"
  by (simp add: fmt_g_eval msvcrt_def)

lemma fmt_g_half: "fmt_g glibc (Finite False 1 (- 1)) = ''0.5''"
  by (simp add: fmt_g_eval)

lemma fmt_g_above_half: "fmt_g glibc (Finite False 536870913 (- 30)) = ''0.5''"
  by (simp add: fmt_g_eval)

lemmas example_defs = example_build_def example_opts_def example_pipes_def example_proc_def
  empty_proc_def copy_opts_def

subsection \<open>The CPU limit\<close>

lemma cpu_calls_child:
  "calls (run_process_child cfg readable argv opts pipes (p\<lparr>calls := []\<rparr>)) =
     calls (set_rlimit_mem opts (snd (remap_loop cfg 3 (pipes, p\<lparr>calls := []\<rparr>))))
       @ (if 0 \<le> sint (maxcpu opts)
          then [Setrlimit ZZUF_RLIMIT_CPU (scast (maxcpu opts)) (scast (maxcpu opts + 5))] else [])
       @ [Execvp (case argv of [] \<Rightarrow> [] | a # _ \<Rightarrow> a) argv]
   \<and> filter is_cpu_limit
         (calls (set_rlimit_mem opts (snd (remap_loop cfg 3 (pipes, p\<lparr>calls := []\<rparr>))))) = []"
proof -
  let ?p1 = "snd (remap_loop cfg 3 (pipes, p\<lparr>calls := []\<rparr>))"
  have a: "filter is_cpu_limit (calls ?p1) = []"
    by (simp only: remap_loop_no_cpu) simp
  have b: "filter is_cpu_limit (calls (set_rlimit_mem opts ?p1)) = []"
    using a by (simp add: set_rlimit_mem_def setrlimit_def)
  show ?thesis
    using b by (simp add: calls_child set_rlimit_cpu_def setrlimit_def)
qed

text \<open>
  Claim C6, as amended. For every configured CPU-time cap of \<open>N\<close> seconds with
  \<open>0 \<le> N \<le> 2147483642\<close> (the largest \<^verbatim>\<open>int\<close> less 5), the child asks for the soft
  limit \<open>N\<close> and the hard limit \<open>N + 5\<close>, and it does so before it replaces the process
  image: the request is the last call before \<^verbatim>\<open>execvp\<close>, and no other request for the
  CPU limit is made. (\<^verbatim>\<open>setrlimit\<close> is asked; its answer is not tested by the code.)
\<close>

theorem cpu_limit_soft_hard:
  assumes "0 \<le> sint (maxcpu opts)" and "sint (maxcpu opts) \<le> 2147483642"
  shows "\<exists>pre cur mx.
           calls (run_process_child cfg readable argv opts pipes (p\<lparr>calls := []\<rparr>))
             = pre @ [Setrlimit ZZUF_RLIMIT_CPU cur mx, Execvp (case argv of [] \<Rightarrow> [] | a # _ \<Rightarrow> a) argv]
           \<and> filter is_cpu_limit pre = []
           \<and> uint cur = sint (maxcpu opts) \<and> uint mx = sint (maxcpu opts) + 5"
proof -
  let ?pre = "calls (set_rlimit_mem opts (snd (remap_loop cfg 3 (pipes, p\<lparr>calls := []\<rparr>))))"
  note c = cpu_calls_child [of cfg readable argv opts pipes p]
  have s5: "0 \<le> sint (maxcpu opts + 5)"
    using assms by (simp add: sint_add5)
  have cur: "uint (scast (maxcpu opts) :: 64 word) = sint (maxcpu opts)"
    using assms(1) by (rule scast_nonneg)
  have mx: "uint (scast (maxcpu opts + 5) :: 64 word) = sint (maxcpu opts) + 5"
    using scast_nonneg [OF s5] assms by (simp add: sint_add5)
  have "calls (run_process_child cfg readable argv opts pipes (p\<lparr>calls := []\<rparr>))
          = ?pre @ [Setrlimit ZZUF_RLIMIT_CPU (scast (maxcpu opts)) (scast (maxcpu opts + 5)),
                    Execvp (case argv of [] \<Rightarrow> [] | a # _ \<Rightarrow> a) argv]"
    using conjunct1 [OF c] assms(1) by simp
  with conjunct2 [OF c] cur mx show ?thesis
    by blast
qed

theorem cpu_limit_soft_hard_witness:
  "0 \<le> sint (maxcpu example_opts) \<and> sint (maxcpu example_opts) \<le> 2147483642
   \<and> sint (maxcpu example_opts) = 10
   \<and> (\<exists>pre cur mx.
         calls (run_process_child example_build (\<lambda>f. True) [''prog'', ''-x''] example_opts
                  example_pipes (example_proc\<lparr>calls := []\<rparr>))
           = pre @ [Setrlimit ZZUF_RLIMIT_CPU cur mx, Execvp ''prog'' [''prog'', ''-x'']]
         \<and> filter is_cpu_limit pre = [] \<and> uint cur = 10 \<and> uint mx = 15)"
proof -
  have h: "0 \<le> sint (maxcpu example_opts)" "sint (maxcpu example_opts) \<le> 2147483642"
    by (simp_all add: example_opts_def)
  have v: "sint (maxcpu example_opts) = 10"
    by (simp add: example_opts_def)
  show ?thesis
    using h v cpu_limit_soft_hard [OF h, of example_build "\<lambda>f. True" "[''prog'', ''-x'']"
        example_pipes example_proc]
    by simp
qed

text \<open>
  Claim C6 as stated is for every cap \<open>N \<ge> 0\<close>. At the largest cap, 2147483647,
  the sum of line 277 wraps around to a negative \<^verbatim>\<open>int\<close> and the hard limit asked for
  is 18446744071562067972, not 2147483652.
\<close>

theorem cpu_limit_wraps:
  "sint (maxcpu max_cpu_opts) = 2147483647
   \<and> filter is_cpu_limit
        (calls (run_process_child example_build (\<lambda>f. True) [''prog'', ''-x''] max_cpu_opts
                  example_pipes (example_proc\<lparr>calls := []\<rparr>)))
       = [Setrlimit ZZUF_RLIMIT_CPU 2147483647 18446744071562067972]"
proof -
  note c = cpu_calls_child [of example_build "\<lambda>f. True" "[''prog'', ''-x'']" max_cpu_opts
      example_pipes example_proc]
  have m: "maxcpu max_cpu_opts = 2147483647"
    by (simp add: max_cpu_opts_def)
  show ?thesis
    using conjunct2 [OF c] by (simp add: conjunct1 [OF c] m)
qed

subsection \<open>The order of the remapping\<close>

lemma remap_body_calls:
  "calls (snd (remap_body cfg j s)) = calls (snd s) @ remap_calls cfg (fst s) j"
  by (simp add: remap_body_def remap_calls_def Let_def calls_close_fd calls_dup2)

lemma remap_calls_other: "i \<noteq> j \<Longrightarrow> remap_calls cfg (ps(i := v)) j = remap_calls cfg ps j"
  by (simp add: remap_calls_def)

lemma remap_body_fdt:
  "fdt (snd (remap_body cfg j s)) =
     (let r = fst (fst s j); w = snd (fst s j); t = (fdt (snd s))(r := None)
      in if w \<noteq> fds cfg j
         then (case t w of None \<Rightarrow> t | Some f \<Rightarrow> t(fds cfg j \<mapsto> f))(w := None)
         else t)"
  by (simp add: remap_body_def Let_def close_fd_def dup2_def split: option.splits)

lemma remap_body_table:
  assumes "fst (fst s j) \<noteq> snd (fst s j)" and "fdt (snd s) (snd (fst s j)) = Some f"
  shows "fdt (snd (remap_body cfg j s)) =
           (\<lambda>n. if n = fds cfg j then Some f
                else if n = fst (fst s j) \<or> n = snd (fst s j) then None
                else fdt (snd s) n)"
  using assms by (auto simp add: remap_body_fdt Let_def fun_eq_iff)

text \<open>
  Claim C7, as amended. The child treats the channels in descending order of their
  index, output (2), then error (1), then debug (0): for each it closes the read end
  and, unless the write end is the fixed descriptor already, duplicates the write end
  onto the fixed descriptor and closes the old one. These are all the calls of the
  loop and those of the debug channel are the last. When the six descriptors are the
  ends of the three pipes, \<^verbatim>\<open>DEBUG_FILENO\<close> is neither 1 nor 2, and no descriptor of
  a channel that is still to be treated is the fixed descriptor of a channel treated
  before it, then after the loop each fixed descriptor is the write end of its
  channel, the array holds the fixed descriptors, and every other descriptor of a
  pipe is closed.
\<close>

theorem remap_descending:
  "calls (snd (remap_loop cfg 3 (pipes, p))) =
     calls p @ remap_calls cfg pipes 2 @ remap_calls cfg pipes 1 @ remap_calls cfg pipes 0
   \<and> (fdt p (fst (pipes 0)) = Some (PipeRead 0) \<and> fdt p (snd (pipes 0)) = Some (PipeWrite 0)
      \<and> fdt p (fst (pipes 1)) = Some (PipeRead 1) \<and> fdt p (snd (pipes 1)) = Some (PipeWrite 1)
      \<and> fdt p (fst (pipes 2)) = Some (PipeRead 2) \<and> fdt p (snd (pipes 2)) = Some (PipeWrite 2)
      \<and> DEBUG_FILENO cfg \<noteq> STDOUT_FILENO \<and> DEBUG_FILENO cfg \<noteq> STDERR_FILENO
      \<and> STDOUT_FILENO \<notin> {fst (pipes 0), snd (pipes 0), fst (pipes 1), snd (pipes 1)}
      \<and> STDERR_FILENO \<notin> {fst (pipes 0), snd (pipes 0)}
      \<longrightarrow>
        fdt (snd (remap_loop cfg 3 (pipes, p))) STDOUT_FILENO = Some (PipeWrite 2)
      \<and> fdt (snd (remap_loop cfg 3 (pipes, p))) STDERR_FILENO = Some (PipeWrite 1)
      \<and> fdt (snd (remap_loop cfg 3 (pipes, p))) (DEBUG_FILENO cfg) = Some (PipeWrite 0)
      \<and> fst (remap_loop cfg 3 (pipes, p)) 0 = (fst (pipes 0), DEBUG_FILENO cfg)
      \<and> fst (remap_loop cfg 3 (pipes, p)) 1 = (fst (pipes 1), STDERR_FILENO)
      \<and> fst (remap_loop cfg 3 (pipes, p)) 2 = (fst (pipes 2), STDOUT_FILENO)
      \<and> (\<forall>n. n \<notin> {STDOUT_FILENO, STDERR_FILENO, DEBUG_FILENO cfg} \<longrightarrow>
            fdt (snd (remap_loop cfg 3 (pipes, p))) n =
              (if n \<in> {fst (pipes 0), snd (pipes 0), fst (pipes 1), snd (pipes 1),
                        fst (pipes 2), snd (pipes 2)}
               then None else fdt p n)))"
proof (rule conjI)
  show "calls (snd (remap_loop cfg 3 (pipes, p))) =
     calls p @ remap_calls cfg pipes 2 @ remap_calls cfg pipes 1 @ remap_calls cfg pipes 0"
    by (simp add: remap_loop_3 remap_body_calls remap_body_pipes remap_calls_other)
next
  have fx: "fds cfg 0 = DEBUG_FILENO cfg" "fds cfg 1 = STDERR_FILENO" "fds cfg 2 = STDOUT_FILENO"
    by (simp_all add: fds_def)
  show "fdt p (fst (pipes 0)) = Some (PipeRead 0) \<and> fdt p (snd (pipes 0)) = Some (PipeWrite 0)
      \<and> fdt p (fst (pipes 1)) = Some (PipeRead 1) \<and> fdt p (snd (pipes 1)) = Some (PipeWrite 1)
      \<and> fdt p (fst (pipes 2)) = Some (PipeRead 2) \<and> fdt p (snd (pipes 2)) = Some (PipeWrite 2)
      \<and> DEBUG_FILENO cfg \<noteq> STDOUT_FILENO \<and> DEBUG_FILENO cfg \<noteq> STDERR_FILENO
      \<and> STDOUT_FILENO \<notin> {fst (pipes 0), snd (pipes 0), fst (pipes 1), snd (pipes 1)}
      \<and> STDERR_FILENO \<notin> {fst (pipes 0), snd (pipes 0)}
      \<longrightarrow>
        fdt (snd (remap_loop cfg 3 (pipes, p))) STDOUT_FILENO = Some (PipeWrite 2)
      \<and> fdt (snd (remap_loop cfg 3 (pipes, p))) STDERR_FILENO = Some (PipeWrite 1)
      \<and> fdt (snd (remap_loop cfg 3 (pipes, p))) (DEBUG_FILENO cfg) = Some (PipeWrite 0)
      \<and> fst (remap_loop cfg 3 (pipes, p)) 0 = (fst (pipes 0), DEBUG_FILENO cfg)
      \<and> fst (remap_loop cfg 3 (pipes, p)) 1 = (fst (pipes 1), STDERR_FILENO)
      \<and> fst (remap_loop cfg 3 (pipes, p)) 2 = (fst (pipes 2), STDOUT_FILENO)
      \<and> (\<forall>n. n \<notin> {STDOUT_FILENO, STDERR_FILENO, DEBUG_FILENO cfg} \<longrightarrow>
            fdt (snd (remap_loop cfg 3 (pipes, p))) n =
              (if n \<in> {fst (pipes 0), snd (pipes 0), fst (pipes 1), snd (pipes 1),
                        fst (pipes 2), snd (pipes 2)}
               then None else fdt p n))"
  proof (rule impI)
    assume h: "fdt p (fst (pipes 0)) = Some (PipeRead 0) \<and> fdt p (snd (pipes 0)) = Some (PipeWrite 0)
      \<and> fdt p (fst (pipes 1)) = Some (PipeRead 1) \<and> fdt p (snd (pipes 1)) = Some (PipeWrite 1)
      \<and> fdt p (fst (pipes 2)) = Some (PipeRead 2) \<and> fdt p (snd (pipes 2)) = Some (PipeWrite 2)
      \<and> DEBUG_FILENO cfg \<noteq> STDOUT_FILENO \<and> DEBUG_FILENO cfg \<noteq> STDERR_FILENO
      \<and> STDOUT_FILENO \<notin> {fst (pipes 0), snd (pipes 0), fst (pipes 1), snd (pipes 1)}
      \<and> STDERR_FILENO \<notin> {fst (pipes 0), snd (pipes 0)}"
    define r0 w0 r1 w1 r2 w2 where "r0 = fst (pipes 0)" and "w0 = snd (pipes 0)"
      and "r1 = fst (pipes 1)" and "w1 = snd (pipes 1)"
      and "r2 = fst (pipes 2)" and "w2 = snd (pipes 2)"
    note rw = r0_def w0_def r1_def w1_def r2_def w2_def
    define D where "D = DEBUG_FILENO cfg"
    define s2 where "s2 = remap_body cfg 2 (pipes, p)"
    define s1 where "s1 = remap_body cfg 1 s2"
    define s0 where "s0 = remap_body cfg 0 s1"
    have ends: "fdt p r0 = Some (PipeRead 0)" "fdt p w0 = Some (PipeWrite 0)"
      "fdt p r1 = Some (PipeRead 1)" "fdt p w1 = Some (PipeWrite 1)"
      "fdt p r2 = Some (PipeRead 2)" "fdt p w2 = Some (PipeWrite 2)"
      using h by (simp_all add: rw)
    have d: "distinct [r0, w0, r1, w1, r2, w2]"
      using ends by auto
    have fixed: "D \<noteq> STDOUT_FILENO" "D \<noteq> STDERR_FILENO" "STDOUT_FILENO \<noteq> STDERR_FILENO"
      "STDOUT_FILENO \<notin> {r0, w0, r1, w1}" "STDERR_FILENO \<notin> {r0, w0}"
      using h by (simp_all add: rw D_def STDOUT_FILENO_def STDERR_FILENO_def)
    have fin: "remap_loop cfg 3 (pipes, p) = s0"
      by (simp add: remap_loop_3 s0_def s1_def s2_def)
    have ps2: "fst s2 = pipes(2 := (r2, STDOUT_FILENO))"
      using fx by (simp add: s2_def remap_body_pipes rw)
    have ps1: "fst s1 = (fst s2)(1 := (r1, STDERR_FILENO))"
      using fx by (simp add: s1_def remap_body_pipes rw ps2)
    have ps0: "fst s0 = (fst s1)(0 := (r0, D))"
      using fx by (simp add: s0_def remap_body_pipes rw ps1 ps2 D_def)
    have e2: "fst (fst (pipes, p) 2) = r2" "snd (fst (pipes, p) 2) = w2"
      by (simp_all add: rw)
    have e1: "fst (fst s2 1) = r1" "snd (fst s2 1) = w1"
      by (simp_all add: ps2 rw)
    have e0: "fst (fst s1 0) = r0" "snd (fst s1 0) = w0"
      by (simp_all add: ps1 ps2 rw)
    have t2: "fdt (snd s2) =
        (\<lambda>n. if n = STDOUT_FILENO then Some (PipeWrite 2) else if n = r2 \<or> n = w2 then None else fdt p n)"
      unfolding s2_def
      using remap_body_table [of "(pipes, p)" 2 "PipeWrite 2" cfg] ends d fx e2
      by (auto simp add: fun_eq_iff)
    have w1open: "fdt (snd s2) w1 = Some (PipeWrite 1)"
      using ends d fixed by (auto simp add: t2)
    have t1: "fdt (snd s1) =
        (\<lambda>n. if n = STDERR_FILENO then Some (PipeWrite 1) else if n = r1 \<or> n = w1 then None
             else fdt (snd s2) n)"
      unfolding s1_def
      using remap_body_table [of s2 1 "PipeWrite 1" cfg] w1open d fx e1
      by (auto simp add: fun_eq_iff)
    have w0open: "fdt (snd s1) w0 = Some (PipeWrite 0)"
      using ends d fixed by (auto simp add: t1 t2)
    have t0: "fdt (snd s0) =
        (\<lambda>n. if n = D then Some (PipeWrite 0) else if n = r0 \<or> n = w0 then None
             else fdt (snd s1) n)"
      unfolding s0_def
      using remap_body_table [of s1 0 "PipeWrite 0" cfg] w0open d fx e0
      by (auto simp add: fun_eq_iff D_def)
    have a: "fdt (snd s0) STDOUT_FILENO = Some (PipeWrite 2)"
      using fixed by (auto simp add: t0 t1 t2)
    have b: "fdt (snd s0) STDERR_FILENO = Some (PipeWrite 1)"
      using fixed by (auto simp add: t0 t1)
    have c: "fdt (snd s0) D = Some (PipeWrite 0)"
      by (simp add: t0)
    have pp: "fst s0 0 = (r0, D)" "fst s0 1 = (r1, STDERR_FILENO)" "fst s0 2 = (r2, STDOUT_FILENO)"
      by (simp_all add: ps0 ps1 ps2)
    have frame: "\<forall>n. n \<notin> {STDOUT_FILENO, STDERR_FILENO, D} \<longrightarrow>
            fdt (snd s0) n = (if n \<in> {r0, w0, r1, w1, r2, w2} then None else fdt p n)"
      by (auto simp add: t0 t1 t2)
    from a b c pp frame show "fdt (snd (remap_loop cfg 3 (pipes, p))) STDOUT_FILENO = Some (PipeWrite 2)
      \<and> fdt (snd (remap_loop cfg 3 (pipes, p))) STDERR_FILENO = Some (PipeWrite 1)
      \<and> fdt (snd (remap_loop cfg 3 (pipes, p))) (DEBUG_FILENO cfg) = Some (PipeWrite 0)
      \<and> fst (remap_loop cfg 3 (pipes, p)) 0 = (fst (pipes 0), DEBUG_FILENO cfg)
      \<and> fst (remap_loop cfg 3 (pipes, p)) 1 = (fst (pipes 1), STDERR_FILENO)
      \<and> fst (remap_loop cfg 3 (pipes, p)) 2 = (fst (pipes 2), STDOUT_FILENO)
      \<and> (\<forall>n. n \<notin> {STDOUT_FILENO, STDERR_FILENO, DEBUG_FILENO cfg} \<longrightarrow>
            fdt (snd (remap_loop cfg 3 (pipes, p))) n =
              (if n \<in> {fst (pipes 0), snd (pipes 0), fst (pipes 1), snd (pipes 1),
                        fst (pipes 2), snd (pipes 2)}
               then None else fdt p n))"
      unfolding fin rw D_def by blast
  qed
qed

lemma example_remap_calls:
  "calls (snd (remap_loop example_build 3 (example_pipes, example_proc))) =
     [Close 7, Dup2 8 1, Close 8, Close 5, Dup2 6 2, Close 6, Close 3, Dup2 4 17, Close 4]"
  by (simp add: remap_loop_3 remap_body_calls remap_body_pipes remap_calls_def fds_def
        STDOUT_FILENO_def STDERR_FILENO_def example_defs)

theorem remap_descending_witness:
  "fdt example_proc (fst (example_pipes 0)) = Some (PipeRead 0)
   \<and> fdt example_proc (snd (example_pipes 0)) = Some (PipeWrite 0)
   \<and> fdt example_proc (fst (example_pipes 1)) = Some (PipeRead 1)
   \<and> fdt example_proc (snd (example_pipes 1)) = Some (PipeWrite 1)
   \<and> fdt example_proc (fst (example_pipes 2)) = Some (PipeRead 2)
   \<and> fdt example_proc (snd (example_pipes 2)) = Some (PipeWrite 2)
   \<and> DEBUG_FILENO example_build \<noteq> STDOUT_FILENO \<and> DEBUG_FILENO example_build \<noteq> STDERR_FILENO
   \<and> STDOUT_FILENO \<notin> {fst (example_pipes 0), snd (example_pipes 0), fst (example_pipes 1), snd (example_pipes 1)}
   \<and> STDERR_FILENO \<notin> {fst (example_pipes 0), snd (example_pipes 0)}
   \<and> calls (snd (remap_loop example_build 3 (example_pipes, example_proc))) =
        [Close 7, Dup2 8 1, Close 8, Close 5, Dup2 6 2, Close 6, Close 3, Dup2 4 17, Close 4]
   \<and> fdt (snd (remap_loop example_build 3 (example_pipes, example_proc))) 1 = Some (PipeWrite 2)
   \<and> fdt (snd (remap_loop example_build 3 (example_pipes, example_proc))) 2 = Some (PipeWrite 1)
   \<and> fdt (snd (remap_loop example_build 3 (example_pipes, example_proc))) 17 = Some (PipeWrite 0)
   \<and> fdt (snd (remap_loop example_build 3 (example_pipes, example_proc))) 4 = None"
proof -
  have h: "fdt example_proc (fst (example_pipes 0)) = Some (PipeRead 0)
   \<and> fdt example_proc (snd (example_pipes 0)) = Some (PipeWrite 0)
   \<and> fdt example_proc (fst (example_pipes 1)) = Some (PipeRead 1)
   \<and> fdt example_proc (snd (example_pipes 1)) = Some (PipeWrite 1)
   \<and> fdt example_proc (fst (example_pipes 2)) = Some (PipeRead 2)
   \<and> fdt example_proc (snd (example_pipes 2)) = Some (PipeWrite 2)
   \<and> DEBUG_FILENO example_build \<noteq> STDOUT_FILENO \<and> DEBUG_FILENO example_build \<noteq> STDERR_FILENO
   \<and> STDOUT_FILENO \<notin> {fst (example_pipes 0), snd (example_pipes 0), fst (example_pipes 1), snd (example_pipes 1)}
   \<and> STDERR_FILENO \<notin> {fst (example_pipes 0), snd (example_pipes 0)}"
    by (simp add: example_defs STDOUT_FILENO_def STDERR_FILENO_def)
  note t = remap_descending [of example_build example_pipes example_proc]
  note post = mp [OF conjunct2 [OF t] h]
  have v: "STDOUT_FILENO = 1" "STDERR_FILENO = 2" "DEBUG_FILENO example_build = 17"
    "snd (example_pipes 0) = 4"
    by (simp_all add: example_defs STDOUT_FILENO_def STDERR_FILENO_def)
  have a: "fdt (snd (remap_loop example_build 3 (example_pipes, example_proc))) 1 = Some (PipeWrite 2)"
    using post by (simp only: v) 
  have b: "fdt (snd (remap_loop example_build 3 (example_pipes, example_proc))) 2 = Some (PipeWrite 1)"
    using post by (simp only: v)
  have c: "fdt (snd (remap_loop example_build 3 (example_pipes, example_proc))) 17 = Some (PipeWrite 0)"
    using post by (simp only: v)
  have "(4 :: int) \<notin> {STDOUT_FILENO, STDERR_FILENO, DEBUG_FILENO example_build}"
    by (simp add: v)
  with post have "fdt (snd (remap_loop example_build 3 (example_pipes, example_proc))) 4 =
      (if (4 :: int) \<in> {fst (example_pipes 0), snd (example_pipes 0), fst (example_pipes 1),
                          snd (example_pipes 1), fst (example_pipes 2), snd (example_pipes 2)}
       then None else fdt example_proc 4)"
    by blast
  then have d: "fdt (snd (remap_loop example_build 3 (example_pipes, example_proc))) 4 = None"
    by (simp add: v)
  from h example_remap_calls a b c d show ?thesis
    by blast
qed

text \<open>
  Claim C7 as stated has the three write ends on their fixed descriptors after the
  loop. In a launcher whose pipes are the descriptors 0 to 5, the write end of the
  debug pipe is descriptor 1: the step of the output channel duplicates its pipe onto
  1, and the step of the debug channel then duplicates that descriptor onto
  \<^verbatim>\<open>DEBUG_FILENO\<close> and closes it. The debug descriptor ends as the output pipe and
  the standard output is closed.
\<close>

theorem remap_clobbers_debug:
  "fdt low_proc (snd (low_pipes 0)) = Some (PipeWrite 0)
   \<and> fdt low_proc (snd (low_pipes 2)) = Some (PipeWrite 2)
   \<and> fdt (snd (remap_loop example_build 3 (low_pipes, low_proc))) (DEBUG_FILENO example_build)
       = Some (PipeWrite 2)
   \<and> fdt (snd (remap_loop example_build 3 (low_pipes, low_proc))) STDOUT_FILENO = None"
  by (simp add: remap_loop_3 remap_body_fdt remap_body_pipes Let_def fds_def
        STDOUT_FILENO_def STDERR_FILENO_def low_pipes_def low_proc_def example_build_def)

subsection \<open>The path of the library\<close>

text \<open>
  Claim C3. For a target path with a separator, that is \<open>dir/base\<close> where \<open>base\<close> has
  no separator, the path is \<open>dir/\<close> followed by \<^verbatim>\<open>LT_OBJDIR\<close> and \<^verbatim>\<open>SONAME\<close> when that
  file is readable, and the installation path \<^verbatim>\<open>LIBDIR "/" SONAME\<close> when it is not.
  For a target path without a separator it is the installation path whatever files
  are readable.
\<close>

theorem resolve_libpath_cases:
  "(CHR ''/'' \<notin> set base \<longrightarrow>
      resolve_libpath cfg readable (dir @ ''/'' @ base) =
        (if readable (dir @ ''/'' @ LT_OBJDIR cfg @ SONAME cfg)
         then dir @ ''/'' @ LT_OBJDIR cfg @ SONAME cfg
         else LIBDIR cfg @ ''/'' @ SONAME cfg))
   \<and> (CHR ''/'' \<notin> set argv0 \<longrightarrow>
      resolve_libpath cfg readable argv0 = LIBDIR cfg @ ''/'' @ SONAME cfg)"
proof (intro conjI impI)
  assume "CHR ''/'' \<notin> set base"
  then have "strrchr (dir @ CHR ''/'' # base) (CHR ''/'') = Some (length dir)"
    by (rule strrchr_last)
  then show "resolve_libpath cfg readable (dir @ ''/'' @ base) =
        (if readable (dir @ ''/'' @ LT_OBJDIR cfg @ SONAME cfg)
         then dir @ ''/'' @ LT_OBJDIR cfg @ SONAME cfg
         else LIBDIR cfg @ ''/'' @ SONAME cfg)"
    by (simp add: resolve_libpath_def Let_def)
next
  assume "CHR ''/'' \<notin> set argv0"
  then have "strrchr argv0 (CHR ''/'') = None"
    by (simp add: strrchr_None)
  then show "resolve_libpath cfg readable argv0 = LIBDIR cfg @ ''/'' @ SONAME cfg"
    by (simp add: resolve_libpath_def)
qed

theorem resolve_libpath_cases_witness:
  "CHR ''/'' \<notin> set ''prog''
   \<and> resolve_libpath example_build (\<lambda>f. f = ''./dir/.libs/libzzuf.so'') ''./dir/prog''
        = ''./dir/.libs/libzzuf.so''
   \<and> resolve_libpath example_build (\<lambda>f. False) ''./dir/prog'' = ''/usr/lib/libzzuf.so''
   \<and> resolve_libpath example_build (\<lambda>f. True) ''prog'' = ''/usr/lib/libzzuf.so''"
  using resolve_libpath_cases [of "''prog''" example_build "\<lambda>f. f = ''./dir/.libs/libzzuf.so''" "''./dir''" "''prog''"]
    resolve_libpath_cases [of "''prog''" example_build "\<lambda>f. False" "''./dir''" "''prog''"]
    resolve_libpath_cases [of "''prog''" example_build "\<lambda>f. True" "''./dir''" "''prog''"]
  by (simp add: example_build_def)

subsection \<open>The preload variable\<close>

text \<open>
  Claim C4. In preload mode the value written to the preload variable is the library
  path \<open>P\<close> alone when the variable is unset or empty in the launcher, and \<open>X:P\<close> when
  it holds the non-empty value \<open>X\<close>. \<open>P\<close> is the resolved path followed by
  \<^verbatim>\<open>EXTRAINFO\<close> (empty except on OSF1).
\<close>

theorem preload_variable_value:
  assumes "opmode opts = OPMODE_PRELOAD"
  shows "env (run_process_child cfg readable argv opts pipes p) (PRELOAD (platform cfg)) =
           Some (case env p (PRELOAD (platform cfg)) of
                   None \<Rightarrow> resolve_libpath cfg readable (oldargv0 opts) @ EXTRAINFO (platform cfg)
                 | Some x \<Rightarrow>
                     if x = [] then resolve_libpath cfg readable (oldargv0 opts) @ EXTRAINFO (platform cfg)
                     else x @ '':'' @ resolve_libpath cfg readable (oldargv0 opts) @ EXTRAINFO (platform cfg))"
  using assms by (simp add: env_child Let_def preload_merge_def split: option.splits)

theorem preload_variable_value_witness:
  "opmode example_opts = OPMODE_PRELOAD
   \<and> env example_proc ''LD_PRELOAD'' = Some ''/opt/x.so''
   \<and> env (run_process_child example_build (\<lambda>f. True) [''prog'', ''-x''] example_opts example_pipes example_proc)
         ''LD_PRELOAD'' = Some ''/opt/x.so:./dir/.libs/libzzuf.so''
   \<and> env empty_proc ''LD_PRELOAD'' = None
   \<and> env (run_process_child example_build (\<lambda>f. True) [''prog'', ''-x''] example_opts example_pipes empty_proc)
         ''LD_PRELOAD'' = Some ''./dir/.libs/libzzuf.so''"
proof -
  have h: "opmode example_opts = OPMODE_PRELOAD"
    by (simp add: example_opts_def)
  have pl: "PRELOAD (platform example_build) = ''LD_PRELOAD''"
    by (simp add: example_build_def)
  show ?thesis
    using h
      preload_variable_value [OF h, of example_build "\<lambda>f. True" "[''prog'', ''-x'']" example_pipes example_proc]
      preload_variable_value [OF h, of example_build "\<lambda>f. True" "[''prog'', ''-x'']" example_pipes empty_proc]
    by (simp add: resolve_libpath_def example_defs)
qed

subsection \<open>The environment and the operating mode\<close>

lemma env_fork_child:
  "0 \<le> fork_res \<Longrightarrow>
   map_option env (snd (snd (run_process_fork cfg readable fork_res argv opts pipes p))) =
     Some (env (run_process_child cfg readable argv opts pipes
                  ((if platform cfg = Apple \<and> opmode opts = OPMODE_PRELOAD
                    then setenv ''DYLD_FORCE_FLAT_NAMESPACE'' ''1'' p else p)\<lparr>calls := []\<rparr>)))"
  by (simp add: run_process_fork_def Let_def)

text \<open>
  Claim C1, as amended. When \<^verbatim>\<open>fork\<close> succeeds, the environment in which the child
  calls \<^verbatim>\<open>execvp\<close> is that of the launcher with these changes and no other. In
  every operating mode \<^verbatim>\<open>ZZUF_DEBUGFD\<close>, \<^verbatim>\<open>ZZUF_SEED\<close>, \<^verbatim>\<open>ZZUF_MINRATIO\<close> and
  \<^verbatim>\<open>ZZUF_MAXRATIO\<close> are set. In preload mode, and only then, the preload variable is
  set to the merged library path, and in the build for macOS
  \<^verbatim>\<open>DYLD_FORCE_FLAT_NAMESPACE\<close> is set to 1.
\<close>

theorem child_environment:
  "0 \<le> fork_res \<Longrightarrow>
   map_option env (snd (snd (run_process_fork cfg readable fork_res argv opts pipes p))) =
     Some (\<lambda>n.
       if n = ''ZZUF_DEBUGFD'' then Some (printf_i (word_of_int (DEBUG_FILENO cfg)))
       else if n = ''ZZUF_SEED'' then Some (printf_i (seed opts))
       else if n = ''ZZUF_MINRATIO'' then Some (fmt_g (LIBC cfg) (minratio opts))
       else if n = ''ZZUF_MAXRATIO'' then Some (fmt_g (LIBC cfg) (maxratio opts))
       else if opmode opts = OPMODE_PRELOAD \<and> n = PRELOAD (platform cfg)
         then Some (preload_merge (env p (PRELOAD (platform cfg)))
                      (resolve_libpath cfg readable (oldargv0 opts) @ EXTRAINFO (platform cfg)))
       else if opmode opts = OPMODE_PRELOAD \<and> platform cfg = Apple \<and> n = ''DYLD_FORCE_FLAT_NAMESPACE''
         then Some ''1''
       else env p n)"
  using PRELOAD_not_ZZUF [of "platform cfg"] PRELOAD_not_flat [of "platform cfg"]
  by (auto simp add: env_fork_child env_child Let_def setenv_def fun_eq_iff)

lemma apple_libpath:
  "resolve_libpath apple_build (\<lambda>f. True) ''./dir/prog'' = ''./dir/.libs/libzzuf.so''"
  by (simp add: resolve_libpath_def apple_build_def example_build_def)

theorem child_environment_witness:
  "(0 :: int) \<le> 1234
   \<and> map_option (\<lambda>e. map e [''ZZUF_DEBUGFD'', ''ZZUF_SEED'', ''ZZUF_MINRATIO'', ''ZZUF_MAXRATIO'',
                             ''DYLD_INSERT_LIBRARIES'', ''DYLD_FORCE_FLAT_NAMESPACE'',
                             ''LD_PRELOAD'', ''HOME''])
       (map_option env (snd (snd (run_process_fork apple_build (\<lambda>f. True) 1234 [''prog'', ''-x'']
                                    example_opts example_pipes example_proc)))) =
     Some [Some ''17'', Some ''42'', Some ''0.1'', Some ''0.9'',
           Some ''./dir/.libs/libzzuf.so'', Some ''1'', Some ''/opt/x.so'', None]"
proof -
  have "(0 :: int) \<le> 1234"
    by simp
  note t = child_environment [OF this, of apple_build "\<lambda>f. True" "[''prog'', ''-x'']"
             example_opts example_pipes example_proc]
  have s: "seed example_opts = 42" "DEBUG_FILENO apple_build = 17" "LIBC apple_build = glibc"
    "minratio example_opts = Finite False 3602879701896397 (- 55)"
    "maxratio example_opts = Finite False 8106479329266893 (- 53)"
    "opmode example_opts = OPMODE_PRELOAD" "platform apple_build = Apple"
    "oldargv0 example_opts = ''./dir/prog''"
    "env example_proc = [''LD_PRELOAD'' \<mapsto> ''/opt/x.so'']"
    by (simp_all add: apple_build_def example_defs)
  show ?thesis
    unfolding t
    by (simp add: s printf_i_42 printf_i_17 fmt_g_tenth fmt_g_nine_tenths apple_libpath
          preload_merge_def del: fmt_g.simps)
qed

text \<open>
  Claim C1 as stated says that no variable is set outside preload mode. A launch in
  another mode, from an empty environment, has \<^verbatim>\<open>ZZUF_SEED\<close> in the child.
\<close>

theorem environment_set_in_copy_mode:
  "opmode copy_opts \<noteq> OPMODE_PRELOAD
   \<and> env empty_proc ''ZZUF_SEED'' = None
   \<and> env (run_process_child example_build (\<lambda>f. True) [''prog'', ''-x''] copy_opts example_pipes empty_proc)
         ''ZZUF_SEED'' = Some ''42''"
  by (simp add: env_child Let_def printf_i_42 example_defs copy_opts_def empty_proc_def)

subsection \<open>Failure of \<^verbatim>\<open>fork\<close>\<close>

text \<open>
  Claim C9 at a failing launch: the three pipes are created, then \<^verbatim>\<open>fork\<close> fails.
  \<^verbatim>\<open>myfork\<close> returns -1 and no child exists, but it has closed nothing: the six
  descriptors of the pipes are still open in the launcher (line 107 of the source:
  \<^verbatim>\<open>FIXME: close pipes\<close>).
\<close>

theorem myfork_leaves_pipes_open:
  "(case myfork example_build (\<lambda>f. True) all_pipes_ok (- 1) example_child example_opts empty_proc of
      (ret, c, p, ch) \<Rightarrow>
        ret = - 1 \<and> ch = None \<and> calls p = []
        \<and> map (fdt p) [3, 4, 5, 6, 7, 8] =
            [Some (PipeRead 0), Some (PipeWrite 0), Some (PipeRead 1), Some (PipeWrite 1),
             Some (PipeRead 2), Some (PipeWrite 2)])"
  by (simp add: myfork_def run_process_fork_def all_pipes_ok_def example_child_def example_defs)

section \<open>Properties of the build without \<^verbatim>\<open>fork\<close>\<close>

subsection \<open>The traces of the parts of \<^verbatim>\<open>dll_inject\<close>\<close>

lemma entry_Inl_trace:
  "dll_inject_entry os m = Inl r \<Longrightarrow>
     res r = - 1 \<and> filter is_restore (trace r) = [] \<and> Api FinalResume \<notin> set (trace r)
       \<and> Api Terminate \<notin> set (trace r)"
  by (auto simp add: dll_inject_entry_def Let_def failed_def split: option.splits if_splits)

lemma entry_Inr:
  "dll_inject_entry os m = Inr (ctxt, oep, orig_data, m1, t) \<Longrightarrow>
     get_thread_context os 0 = Some ctxt \<and> oep = LoaderRegister ctxt
       \<and> orig_data = [m oep, m (oep + 1)]
       \<and> filter is_restore t = [] \<and> Api FinalResume \<notin> set t \<and> Api Terminate \<notin> set t"
  by (auto simp add: dll_inject_entry_def Let_def split: option.splits if_splits)

lemma hijack_res:
  "res (dll_inject_hijack ldr lloff os lib ctxt oep orig_data m t) = 0
   \<or> res (dll_inject_hijack ldr lloff os lib ctxt oep orig_data m t) = - 1"
  by (simp add: dll_inject_hijack_def Let_def failed_def)

lemma hijack_trace:
  "\<exists>t'. trace (dll_inject_hijack ldr lloff os lib ctxt oep orig_data m t) = t @ t'
     \<and> Api FinalResume \<notin> set t' \<and> Api Terminate \<notin> set t'
     \<and> (filter is_restore t' = [] \<or> filter is_restore t' = [MemWrite RestoreEntry oep orig_data])"
  by (simp add: dll_inject_hijack_def Let_def failed_def)

lemma hijack_restored:
  assumes "MemWrite RestoreEntry a d \<in> set (trace (dll_inject_hijack ldr lloff os lib ctxt oep [b0, b1] m t))"
    and "filter is_restore t = []" and "ok os RestoreEntry"
  shows "mem_after (dll_inject_hijack ldr lloff os lib ctxt oep [b0, b1] m t) oep = b0
         \<and> mem_after (dll_inject_hijack ldr lloff os lib ctxt oep [b0, b1] m t) (oep + 1) = b1"
proof -
  have no: "MemWrite RestoreEntry a d \<notin> set t"
    using assms(2) by (metis filter_empty_conv is_restore.simps(1))
  show ?thesis
    using assms(1,3) no
    by (simp add: dll_inject_hijack_def Let_def failed_def split: if_splits)
qed

lemma dll_inject_trace:
  assumes "dll_inject ldr lloff os lib m = Some r"
  shows "Api FinalResume \<notin> set (trace r) \<and> Api Terminate \<notin> set (trace r)
         \<and> (res r = 0 \<or> res r = - 1)"
proof (cases "dll_inject_entry os m")
  case (Inl r')
  with assms have "r = r'"
    by (simp add: dll_inject_def)
  with entry_Inl_trace [OF Inl] show ?thesis
    by simp
next
  case (Inr x)
  obtain ctxt oep orig_data m1 t where x: "x = (ctxt, oep, orig_data, m1, t)"
    by (cases x) auto
  note e = entry_Inr [OF Inr [unfolded x]]
  from assms Inr x obtain k w where
    w: "wait_for_entry (get_thread_context os) oep 1 ctxt = Some (k, w)"
    by (auto simp add: dll_inject_def split: option.splits)
  show ?thesis
  proof (cases w)
    case None
    with assms Inr x w
    have "r = failed (target_writes os m1) (t @ replicate (k - 1) (Api PollContext))"
      by (simp add: dll_inject_def)
    with e show ?thesis
      by (auto simp add: failed_def)
  next
    case (Some ctxt')
    let ?h = "dll_inject_hijack ldr lloff os lib ctxt' oep orig_data (target_writes os m1)
                (t @ replicate (k - 1) (Api PollContext))"
    from assms Inr x w Some have r: "r = ?h"
      by (simp add: dll_inject_def)
    from hijack_trace [of ldr lloff os lib ctxt' oep orig_data "target_writes os m1"
        "t @ replicate (k - 1) (Api PollContext)"]
    obtain t' where "trace ?h = (t @ replicate (k - 1) (Api PollContext)) @ t'"
      and "Api FinalResume \<notin> set t'" and "Api Terminate \<notin> set t'"
      by blast
    with e r hijack_res [of ldr lloff os lib ctxt' oep orig_data "target_writes os m1"
        "t @ replicate (k - 1) (Api PollContext)"]
    show ?thesis
      by auto
  qed
qed

subsection \<open>Evaluation on the concrete target\<close>

lemmas win_example_defs = example_image_def example_ntdll_def example_kernel32_def example_mem_def
  example_os_def failing_os_def

lemma tolower_kernel32: "map tolower ''kernel32.dll'' = ''kernel32.dll''"
  by (simp add: tolower_def)

lemma upt_0_2: "[0 ..< 2] = [0, Suc 0]"
  by (simp add: numeral_2_eq_2)

lemma example_resolve:
  "get_proc_address example_image [example_ntdll, example_kernel32] ''LoadLibraryA'' = 0x76004000"
  by (simp add: get_proc_address_def stricmp_def tolower_def Let_def upt_0_2 win_example_defs)

lemma example_wait:
  "wait_for_entry (get_thread_context example_os) 0x140001000 1
     \<lparr>InstructionPointer = 0x77001000, StackPointer = 0x10000, LoaderRegister = 0x140001000\<rparr>
   = Some (2, Some \<lparr>InstructionPointer = 0x140001000, StackPointer = 0x10000, LoaderRegister = 0x140001000\<rparr>)"
  by (simp add: wait_for_entry.simps example_os_def)

lemma example_os_sel:
  "ok example_os s" "virtual_alloc example_os = 0x20000" "target_writes example_os m = m"
  "snapshot example_os = [example_ntdll, example_kernel32]" "target_image example_os = example_image"
  "get_thread_context example_os 0 =
     Some \<lparr>InstructionPointer = 0x77001000, StackPointer = 0x10000, LoaderRegister = 0x140001000\<rparr>"
  by (simp_all add: example_os_def)

lemma failing_os_sel:
  "ok failing_os s" "virtual_alloc failing_os = 0" "target_writes failing_os m = m"
  "snapshot failing_os = [example_ntdll, example_kernel32]" "target_image failing_os = example_image"
  "get_thread_context failing_os = get_thread_context example_os"
  by (simp_all add: example_os_def failing_os_def)

lemma example_entry:
  "dll_inject_entry example_os example_mem =
     Inr (\<lparr>InstructionPointer = 0x77001000, StackPointer = 0x10000, LoaderRegister = 0x140001000\<rparr>,
          0x140001000, [0x48, 0x83], write_bytes example_mem 0x140001000 wait_code,
          [Api GetContext, MemRead ReadEntry 0x140001000 2, MemWrite WriteLoop 0x140001000 wait_code,
           Api FlushLoop, Api ResumeForLoader])"
  by (simp add: dll_inject_entry_def Let_def example_os_sel example_mem_def)

lemma failing_entry:
  "dll_inject_entry failing_os example_mem = dll_inject_entry example_os example_mem"
  by (simp add: dll_inject_entry_def Let_def example_os_sel failing_os_sel)

lemma example_injection:
  "\<exists>r. dll_inject_amd64 example_os ''libzzuf.dll'' example_mem = Some r \<and> res r = 0
     \<and> MemWrite RestoreEntry 0x140001000 [0x48, 0x83] \<in> set (trace r)"
  using example_wait
  by (simp add: dll_inject_amd64_def dll_inject_def example_entry
        dll_inject_hijack_def Let_def example_os_sel example_resolve)

lemma failing_injection:
  "\<exists>r. dll_inject_amd64 failing_os ''libzzuf.dll'' example_mem = Some r \<and> res r = - 1"
  using example_wait
  by (simp add: dll_inject_amd64_def dll_inject_def failing_entry example_entry
        dll_inject_hijack_def Let_def failing_os_sel example_resolve failed_def)

lemma example_win_launch:
  "\<exists>c p1 m1 t. run_process_amd64 example_os ''libzzuf.dll'' (\<lambda>n. 1000 + n) example_pinfo example_opts
                  example_win_child example_pipes empty_proc example_mem = Some (100, c, p1, m1, t)
               \<and> Api FinalResume \<in> set t"
proof -
  from example_injection obtain r where
    "dll_inject_amd64 example_os ''libzzuf.dll'' example_mem = Some r" and "res r = 0"
    by blast
  then show ?thesis
    by (simp add: run_process_amd64_def run_process_win_def Let_def example_os_sel example_pinfo_def)
qed

subsection \<open>The bytes at the entry point\<close>

text \<open>
  Claim C2. Whenever \<^verbatim>\<open>dll_inject\<close> comes to write the entry point back (line 541),
  it writes at the entry address (the loader register of the first context) the two
  bytes that were there when it was called, which are the bytes it read at line 495
  before writing the loop. When that write succeeds, these two bytes are at the entry
  address when the function returns. The statement is for every payload and pointer
  size, so for \<open>dll_inject_x86\<close> and \<open>dll_inject_amd64\<close> alike.
\<close>

theorem restored_bytes_are_saved_bytes:
  assumes "dll_inject ldr lloff os lib m = Some r"
    and "get_thread_context os 0 = Some c"
    and "MemWrite RestoreEntry a d \<in> set (trace r)"
  shows "a = LoaderRegister c \<and> d = [m a, m (a + 1)]
         \<and> (ok os RestoreEntry \<longrightarrow> mem_after r a = m a \<and> mem_after r (a + 1) = m (a + 1))"
proof (cases "dll_inject_entry os m")
  case (Inl r')
  with assms(1) have "r = r'"
    by (simp add: dll_inject_def)
  with entry_Inl_trace [OF Inl] have "filter is_restore (trace r) = []"
    by simp
  with assms(3) show ?thesis
    by (metis filter_empty_conv is_restore.simps(1))
next
  case (Inr x)
  obtain ctxt oep orig_data m1 t where x: "x = (ctxt, oep, orig_data, m1, t)"
    by (cases x) auto
  note e = entry_Inr [OF Inr [unfolded x]]
  from e assms(2) have c: "ctxt = c" and oep: "oep = LoaderRegister c"
    and orig: "orig_data = [m oep, m (oep + 1)]" and t: "filter is_restore t = []"
    by simp_all
  from assms(1) Inr x obtain k w where
    w: "wait_for_entry (get_thread_context os) oep 1 ctxt = Some (k, w)"
    by (auto simp add: dll_inject_def split: option.splits)
  let ?t = "t @ replicate (k - 1) (Api PollContext)"
  have t2: "filter is_restore ?t = []"
    using t by simp
  show ?thesis
  proof (cases w)
    case None
    with assms(1) Inr x w have "r = failed (target_writes os m1) ?t"
      by (simp add: dll_inject_def)
    then have "filter is_restore (trace r) = []"
      using t2 by (simp add: failed_def)
    with assms(3) show ?thesis
      by (metis filter_empty_conv is_restore.simps(1))
  next
    case (Some ctxt')
    let ?h = "dll_inject_hijack ldr lloff os lib ctxt' oep [m oep, m (oep + 1)] (target_writes os m1) ?t"
    from assms(1) Inr x w Some orig have r: "r = ?h"
      by (simp add: dll_inject_def)
    from hijack_trace [of ldr lloff os lib ctxt' oep "[m oep, m (oep + 1)]" "target_writes os m1" ?t]
    obtain t' where tr: "trace ?h = ?t @ t'"
      and cases: "filter is_restore t' = [] \<or> filter is_restore t' = [MemWrite RestoreEntry oep [m oep, m (oep + 1)]]"
      by blast
    have f: "filter is_restore (trace r) = filter is_restore t'"
      using t tr by (simp add: r)
    have "MemWrite RestoreEntry a d \<in> set (filter is_restore (trace r))"
      using assms(3) by simp
    then have ev: "MemWrite RestoreEntry a d \<in> set (filter is_restore t')"
      by (simp only: f)
    have ad: "a = oep \<and> d = [m oep, m (oep + 1)]"
    proof (rule disjE [OF cases])
      assume none: "filter is_restore t' = []"
      from ev show ?thesis
        unfolding none by simp
    next
      assume one: "filter is_restore t' = [MemWrite RestoreEntry oep [m oep, m (oep + 1)]]"
      from ev show ?thesis
        unfolding one by simp
    qed
    have "ok os RestoreEntry \<longrightarrow> mem_after r oep = m oep \<and> mem_after r (oep + 1) = m (oep + 1)"
      using hijack_restored [of a d ldr lloff os lib ctxt' oep "m oep" "m (oep + 1)" "target_writes os m1" ?t]
        assms(3) r t2 by blast
    with ad oep show ?thesis
      by simp
  qed
qed

theorem restored_bytes_witness:
  "get_thread_context example_os 0 =
     Some \<lparr>InstructionPointer = 0x77001000, StackPointer = 0x10000, LoaderRegister = 0x140001000\<rparr>
   \<and> ok example_os RestoreEntry
   \<and> (\<exists>r. dll_inject_amd64 example_os ''libzzuf.dll'' example_mem = Some r
          \<and> MemWrite RestoreEntry 0x140001000 [0x48, 0x83] \<in> set (trace r)
          \<and> mem_after r 0x140001000 = 0x48 \<and> mem_after r 0x140001001 = 0x83)"
proof -
  from example_injection obtain r where
    r: "dll_inject ldr64 0x15 example_os ''libzzuf.dll'' example_mem = Some r"
    and ev: "MemWrite RestoreEntry 0x140001000 [0x48, 0x83] \<in> set (trace r)"
    by (auto simp add: dll_inject_amd64_def)
  from restored_bytes_are_saved_bytes [OF r example_os_sel(6) ev]
  have "mem_after r 0x140001000 = 0x48 \<and> mem_after r 0x140001001 = 0x83"
    by (simp add: example_os_sel example_mem_def)
  with r ev show ?thesis
    by (auto simp add: dll_inject_amd64_def example_os_sel)
qed

subsection \<open>Failure of the injection\<close>

text \<open>
  Claim C5. When the target was created and \<^verbatim>\<open>dll_inject\<close> returns a failure, the
  launcher calls \<^verbatim>\<open>TerminateProcess\<close> as its last call, returns -1, and the resume
  of line 402 is not among its calls. Whenever that resume is among the calls of a
  launch, \<^verbatim>\<open>dll_inject\<close> has returned 0 before it. The statement is for every payload
  and pointer size.
\<close>

theorem injection_failure_no_resume:
  "(ok os Create \<and> dll_inject ldr lloff os soname m = Some r \<and> res r < 0 \<longrightarrow>
      (\<exists>c' p'. run_process_win (dll_inject ldr lloff) os soname h pinfo opts child pipes p m
                  = Some (- 1, c', p', mem_after r, [Api Create] @ trace r @ [Api Terminate]))
      \<and> Api FinalResume \<notin> set (trace r))
   \<and> (run_process_win (dll_inject ldr lloff) os soname h pinfo opts child pipes p m
         = Some (ret, c, p1, m1, t) \<and> Api FinalResume \<in> set t \<longrightarrow>
      (\<exists>r rest. dll_inject ldr lloff os soname m = Some r \<and> res r = 0
                  \<and> t = [Api Create] @ trace r @ [Api FinalResume] @ rest))"
proof (intro conjI impI)
  assume a: "ok os Create \<and> dll_inject ldr lloff os soname m = Some r \<and> res r < 0"
  then show "\<exists>c' p'. run_process_win (dll_inject ldr lloff) os soname h pinfo opts child pipes p m
                  = Some (- 1, c', p', mem_after r, [Api Create] @ trace r @ [Api Terminate])"
    by (simp add: run_process_win_def Let_def)
  from a dll_inject_trace [of ldr lloff os soname m r] show "Api FinalResume \<notin> set (trace r)"
    by simp
next
  assume b: "run_process_win (dll_inject ldr lloff) os soname h pinfo opts child pipes p m
         = Some (ret, c, p1, m1, t) \<and> Api FinalResume \<in> set t"
  then have cr: "ok os Create"
    by (auto simp add: run_process_win_def Let_def split: if_splits)
  with b obtain r where r: "dll_inject ldr lloff os soname m = Some r"
    by (auto simp add: run_process_win_def Let_def split: option.splits)
  note tr = dll_inject_trace [OF r]
  have nonneg: "\<not> res r < 0"
  proof
    assume "res r < 0"
    with b cr r have "t = [Api Create] @ trace r @ [Api Terminate]"
      by (simp add: run_process_win_def Let_def)
    with b tr show False
      by simp
  qed
  with tr have zero: "res r = 0"
    by auto
  from b cr r nonneg have "\<exists>rest. t = [Api Create] @ trace r @ [Api FinalResume] @ rest"
    by (auto simp add: run_process_win_def Let_def split: if_splits)
  with r zero show "\<exists>r rest. dll_inject ldr lloff os soname m = Some r \<and> res r = 0
                  \<and> t = [Api Create] @ trace r @ [Api FinalResume] @ rest"
    by blast
qed

theorem injection_failure_no_resume_witness:
  "ok failing_os Create
   \<and> (\<exists>r. dll_inject_amd64 failing_os ''libzzuf.dll'' example_mem = Some r \<and> res r < 0
          \<and> (\<exists>c' p'. run_process_amd64 failing_os ''libzzuf.dll'' (\<lambda>n. 1000 + n) example_pinfo
                         example_opts example_win_child example_pipes empty_proc example_mem
                       = Some (- 1, c', p', mem_after r, [Api Create] @ trace r @ [Api Terminate]))
          \<and> Api FinalResume \<notin> set (trace r))
   \<and> (\<exists>c p1 m1 t. run_process_amd64 example_os ''libzzuf.dll'' (\<lambda>n. 1000 + n) example_pinfo
                      example_opts example_win_child example_pipes empty_proc example_mem
                    = Some (100, c, p1, m1, t)
          \<and> Api FinalResume \<in> set t
          \<and> (\<exists>r rest. dll_inject_amd64 example_os ''libzzuf.dll'' example_mem = Some r \<and> res r = 0
                 \<and> t = [Api Create] @ trace r @ [Api FinalResume] @ rest))"
proof -
  from failing_injection obtain r where
    r: "dll_inject ldr64 0x15 failing_os ''libzzuf.dll'' example_mem = Some r" and neg: "res r < 0"
    by (auto simp add: dll_inject_amd64_def)
  have h: "ok failing_os Create \<and> dll_inject ldr64 0x15 failing_os ''libzzuf.dll'' example_mem = Some r
           \<and> res r < 0"
    using r neg by (simp add: failing_os_sel)
  from mp [OF conjunct1 [OF injection_failure_no_resume
        [of failing_os ldr64 "0x15" "''libzzuf.dll''" example_mem r "\<lambda>n. 1000 + n" example_pinfo
          example_opts example_win_child example_pipes empty_proc]] h]
  have first: "\<exists>r. dll_inject_amd64 failing_os ''libzzuf.dll'' example_mem = Some r \<and> res r < 0
          \<and> (\<exists>c' p'. run_process_amd64 failing_os ''libzzuf.dll'' (\<lambda>n. 1000 + n) example_pinfo
                         example_opts example_win_child example_pipes empty_proc example_mem
                       = Some (- 1, c', p', mem_after r, [Api Create] @ trace r @ [Api Terminate]))
          \<and> Api FinalResume \<notin> set (trace r)"
    using r neg by (auto simp add: dll_inject_amd64_def run_process_amd64_def)
  from example_win_launch obtain c p1 m1 t where
    w: "run_process_win (dll_inject ldr64 0x15) example_os ''libzzuf.dll'' (\<lambda>n. 1000 + n) example_pinfo
          example_opts example_win_child example_pipes empty_proc example_mem = Some (100, c, p1, m1, t)"
    and fr: "Api FinalResume \<in> set t"
    by (auto simp add: run_process_amd64_def dll_inject_amd64_def)
  from mp [OF conjunct2 [OF injection_failure_no_resume
        [of example_os ldr64 "0x15" "''libzzuf.dll''" example_mem _ "\<lambda>n. 1000 + n" example_pinfo
          example_opts example_win_child example_pipes empty_proc 100 c p1 m1 t]] conjI [OF w fr]]
  have second: "\<exists>r rest. dll_inject_amd64 example_os ''libzzuf.dll'' example_mem = Some r \<and> res r = 0
                 \<and> t = [Api Create] @ trace r @ [Api FinalResume] @ rest"
    by (simp add: dll_inject_amd64_def)
  from first second w fr show ?thesis
    unfolding run_process_amd64_def dll_inject_amd64_def
    by (intro conjI exI [of _ c] exI [of _ p1] exI [of _ m1] exI [of _ t]) (simp_all add: failing_os_sel)
qed

subsection \<open>The modules that are searched\<close>

lemma scan_names_None:
  "scan_names img base expdir func ixs = None \<longleftrightarrow>
     \<not> list_ex
         (\<lambda>i. rd_bytes img
                (base + ucast (rd_u32 img (base + ucast (AddressOfNames expdir) + of_nat i * 4)))
                (length func + 1) = func @ [CHR 0x00])
         ixs"
  by (induction ixs) (simp_all add: Let_def)

lemma stricmp_kernel32: "stricmp ''kernel32.dll'' (szModule e) \<longleftrightarrow> \<not> is_kernel32 e"
  unfolding stricmp_def is_kernel32_def tolower_kernel32 by metis

lemma module_loop_filter:
  "module_loop img func ms = module_loop img func (filter is_kernel32 ms)"
  by (induction ms) (simp_all add: stricmp_kernel32 Let_def split: option.splits)

lemma module_loop_none:
  "(\<forall>e \<in> set ms. is_kernel32 e \<longrightarrow> \<not> exports_name img e func) \<Longrightarrow> module_loop img func ms = 0"
proof (induction ms)
  case Nil
  show ?case by simp
next
  case (Cons e ms)
  then have rest: "module_loop img func ms = 0"
    by simp
  show ?case
  proof (cases "is_kernel32 e")
    case False
    then show ?thesis
      using rest by (simp add: stricmp_kernel32)
  next
    case True
    with Cons.prems have "\<not> exports_name img e func"
      by simp
    then have "rd_export_va img (modBaseAddr e + scast (rd_e_lfanew img (modBaseAddr e))) = 0
      \<or> scan_names img (modBaseAddr e)
           (rd_expdir img (modBaseAddr e
              + ucast (rd_export_va img (modBaseAddr e + scast (rd_e_lfanew img (modBaseAddr e))))))
           func
           [0 ..< nat (sint (NumberOfNames (rd_expdir img (modBaseAddr e
              + ucast (rd_export_va img (modBaseAddr e + scast (rd_e_lfanew img (modBaseAddr e))))))))]
         = None"
      by (simp add: exports_name_def Let_def scan_names_None)
    then show ?thesis
      using rest True by (auto simp add: stricmp_kernel32 Let_def)
  qed
qed

text \<open>
  Claim C10. The result of \<^verbatim>\<open>get_proc_address\<close> is the same when every module whose
  name is not kernel32.dll, compared without regard to case, is removed from the list:
  such modules are skipped. The result is the null pointer when no module called
  kernel32.dll exports the name.
\<close>

theorem kernel32_only:
  "get_proc_address img ms func = get_proc_address img (filter is_kernel32 ms) func
   \<and> ((\<forall>e \<in> set ms. is_kernel32 e \<longrightarrow> \<not> exports_name img e func) \<longrightarrow>
        get_proc_address img ms func = 0)"
  using module_loop_filter [of img func ms] module_loop_none [of ms img func]
  by (simp add: get_proc_address_def)

lemma example_modules:
  "\<not> is_kernel32 example_ntdll" "is_kernel32 example_kernel32"
  "exports_name example_image example_ntdll ''LoadLibraryA''"
  by (simp_all add: is_kernel32_def tolower_def exports_name_def Let_def upt_0_2 win_example_defs)

theorem kernel32_only_witness:
  "\<not> is_kernel32 example_ntdll \<and> is_kernel32 example_kernel32
   \<and> exports_name example_image example_ntdll ''LoadLibraryA''
   \<and> get_proc_address example_image [example_ntdll] ''LoadLibraryA'' = 0
   \<and> get_proc_address example_image [example_ntdll, example_kernel32] ''LoadLibraryA''
       = get_proc_address example_image [example_kernel32] ''LoadLibraryA''"
proof -
  note a = kernel32_only [of example_image "[example_ntdll]" "''LoadLibraryA''"]
  note b = kernel32_only [of example_image "[example_ntdll, example_kernel32]" "''LoadLibraryA''"]
  have 1: "get_proc_address example_image [example_ntdll] ''LoadLibraryA'' = 0"
    by (rule mp [OF conjunct2 [OF a]]) (simp add: example_modules)
  have 2: "get_proc_address example_image [example_ntdll, example_kernel32] ''LoadLibraryA''
             = get_proc_address example_image [example_kernel32] ''LoadLibraryA''"
    using conjunct1 [OF b] by (simp add: example_modules)
  from 1 2 example_modules show ?thesis
    by blast
qed


section \<open>The text of the seed and of the ratios\<close>

lemma env_win:
  "run_process_win inject os soname h pinfo opts child pipes p m = Some (ret, c, p1, m1, t) \<Longrightarrow>
     p1 = set_environment (crt os) opts (h (snd (pipes 0))) p"
  by (auto simp add: run_process_win_def Let_def split: if_splits option.splits)

lemma sint_small: "unat (w :: 32 word) < 2 ^ 31 \<Longrightarrow> sint w = int (unat w)"
proof -
  assume a: "unat w < 2 ^ 31"
  from a have "int (unat w) < 2 ^ 31"
    by (metis of_nat_less_iff of_nat_numeral of_nat_power)
  then have b1: "uint w < 2 ^ 31"
    by simp
  have "(- (2 ^ 31) :: int) \<le> 0"
    by simp
  then have b2: "- (2 ^ 31) \<le> uint w"
    using uint_ge_0 [of w] by (rule order_trans)
  have "sint w = signed_take_bit 31 (uint w)"
    by (simp add: sint_uint)
  also from b1 b2 have "\<dots> = uint w"
    by (simp add: signed_take_bit_int_eq_self)
  finally show ?thesis
    by simp
qed

lemma printf_i_small: "unat w < 2 ^ 31 \<Longrightarrow> printf_i w = dec_digits (unat w)"
  by (simp add: printf_i_def fmt_i_def sint_small)

text \<open>
  Claim C8, as amended. In both builds \<^verbatim>\<open>ZZUF_SEED\<close> is the decimal text of the 32
  bits of the seed read as a signed integer, which is what \<^verbatim>\<open>%i\<close> prints: the
  decimal digits of the seed when it is below \<open>2^31\<close>, a negative number otherwise.
  \<^verbatim>\<open>ZZUF_MINRATIO\<close> and \<^verbatim>\<open>ZZUF_MAXRATIO\<close> are the ratios as \<^verbatim>\<open>%g\<close> of the C
  library in use prints them: rounded to six significant digits.
\<close>

theorem seed_and_ratio_text:
  "(let c = run_process_child cfg readable argv opts pipes p
    in env c ''ZZUF_SEED'' = Some (fmt_i (sint (seed opts)))
       \<and> (unat (seed opts) < 2 ^ 31 \<longrightarrow> env c ''ZZUF_SEED'' = Some (dec_digits (unat (seed opts))))
       \<and> env c ''ZZUF_MINRATIO'' = Some (fmt_g (LIBC cfg) (minratio opts))
       \<and> env c ''ZZUF_MAXRATIO'' = Some (fmt_g (LIBC cfg) (maxratio opts)))
   \<and> (run_process_win inject os soname h pinfo wopts child wpipes wp m = Some (ret, c', p', m', t) \<longrightarrow>
        env p' ''ZZUF_SEED'' = Some (fmt_i (sint (seed wopts)))
        \<and> (unat (seed wopts) < 2 ^ 31 \<longrightarrow> env p' ''ZZUF_SEED'' = Some (dec_digits (unat (seed wopts))))
        \<and> env p' ''ZZUF_MINRATIO'' = Some (fmt_g (crt os) (minratio wopts))
        \<and> env p' ''ZZUF_MAXRATIO'' = Some (fmt_g (crt os) (maxratio wopts)))"
proof (rule conjI)
  have "env (run_process_child cfg readable argv opts pipes p) ''ZZUF_SEED'' = Some (printf_i (seed opts))
      \<and> env (run_process_child cfg readable argv opts pipes p) ''ZZUF_MINRATIO''
          = Some (fmt_g (LIBC cfg) (minratio opts))
      \<and> env (run_process_child cfg readable argv opts pipes p) ''ZZUF_MAXRATIO''
          = Some (fmt_g (LIBC cfg) (maxratio opts))"
    using PRELOAD_not_ZZUF [of "platform cfg"] by (simp add: env_child Let_def)
  then show "let c = run_process_child cfg readable argv opts pipes p
    in env c ''ZZUF_SEED'' = Some (fmt_i (sint (seed opts)))
       \<and> (unat (seed opts) < 2 ^ 31 \<longrightarrow> env c ''ZZUF_SEED'' = Some (dec_digits (unat (seed opts))))
       \<and> env c ''ZZUF_MINRATIO'' = Some (fmt_g (LIBC cfg) (minratio opts))
       \<and> env c ''ZZUF_MAXRATIO'' = Some (fmt_g (LIBC cfg) (maxratio opts))"
    using printf_i_small [of "seed opts"] by (simp add: Let_def printf_i_def)
next
  show "run_process_win inject os soname h pinfo wopts child wpipes wp m = Some (ret, c', p', m', t) \<longrightarrow>
        env p' ''ZZUF_SEED'' = Some (fmt_i (sint (seed wopts)))
        \<and> (unat (seed wopts) < 2 ^ 31 \<longrightarrow> env p' ''ZZUF_SEED'' = Some (dec_digits (unat (seed wopts))))
        \<and> env p' ''ZZUF_MINRATIO'' = Some (fmt_g (crt os) (minratio wopts))
        \<and> env p' ''ZZUF_MAXRATIO'' = Some (fmt_g (crt os) (maxratio wopts))"
  proof (rule impI)
    assume "run_process_win inject os soname h pinfo wopts child wpipes wp m = Some (ret, c', p', m', t)"
    then have p': "p' = set_environment (crt os) wopts (h (snd (wpipes 0))) wp"
      by (rule env_win)
    have "env p' ''ZZUF_SEED'' = Some (printf_i (seed wopts))
        \<and> env p' ''ZZUF_MINRATIO'' = Some (fmt_g (crt os) (minratio wopts))
        \<and> env p' ''ZZUF_MAXRATIO'' = Some (fmt_g (crt os) (maxratio wopts))"
      by (simp add: p' env_set_environment)
    then show "env p' ''ZZUF_SEED'' = Some (fmt_i (sint (seed wopts)))
        \<and> (unat (seed wopts) < 2 ^ 31 \<longrightarrow> env p' ''ZZUF_SEED'' = Some (dec_digits (unat (seed wopts))))
        \<and> env p' ''ZZUF_MINRATIO'' = Some (fmt_g (crt os) (minratio wopts))
        \<and> env p' ''ZZUF_MAXRATIO'' = Some (fmt_g (crt os) (maxratio wopts))"
      using printf_i_small [of "seed wopts"] by (simp add: printf_i_def)
  qed
qed

lemma dec_digits_42: "dec_digits 42 = ''42''"
  by (simp add: digit_char_def)

theorem seed_and_ratio_text_witness:
  "unat (seed example_opts) < 2 ^ 31
   \<and> (let c = run_process_child example_build (\<lambda>f. True) [''prog'', ''-x''] example_opts example_pipes example_proc
    in env c ''ZZUF_SEED'' = Some ''42'' \<and> env c ''ZZUF_MINRATIO'' = Some ''0.1''
       \<and> env c ''ZZUF_MAXRATIO'' = Some ''0.9'')
   \<and> (\<exists>c p1 m1 t. run_process_amd64 example_os ''libzzuf.dll'' (\<lambda>n. 1000 + n) example_pinfo example_opts
                  example_win_child example_pipes empty_proc example_mem = Some (100, c, p1, m1, t)
          \<and> env p1 ''ZZUF_SEED'' = Some ''42'' \<and> env p1 ''ZZUF_MINRATIO'' = Some ''0.1''
          \<and> env p1 ''ZZUF_MAXRATIO'' = Some ''0.9'')"
proof -
  have small: "unat (seed example_opts) < 2 ^ 31"
    by (simp add: example_opts_def)
  have vals: "dec_digits (unat (seed example_opts)) = ''42''"
    "fmt_g (LIBC example_build) (minratio example_opts) = ''0.1''"
    "fmt_g (LIBC example_build) (maxratio example_opts) = ''0.9''"
    "fmt_g (crt example_os) (minratio example_opts) = ''0.1''"
    "fmt_g (crt example_os) (maxratio example_opts) = ''0.9''"
    by (simp_all add: example_opts_def example_build_def example_os_def dec_digits_42
          fmt_g_tenth fmt_g_nine_tenths fmt_g_tenth_msvcrt fmt_g_nine_tenths_msvcrt
          del: fmt_g.simps dec_digits.simps)
  from example_win_launch obtain c p1 m1 t where
    w: "run_process_win dll_inject_amd64 example_os ''libzzuf.dll'' (\<lambda>n. 1000 + n) example_pinfo example_opts
                  example_win_child example_pipes empty_proc example_mem = Some (100, c, p1, m1, t)"
    by (auto simp add: run_process_amd64_def)
  note th = seed_and_ratio_text [of example_build "\<lambda>f. True" "[''prog'', ''-x'']" example_opts
      example_pipes example_proc dll_inject_amd64 example_os "''libzzuf.dll''" "\<lambda>n. 1000 + n"
      example_pinfo example_opts example_win_child example_pipes empty_proc example_mem 100 c p1 m1 t]
  let ?c = "run_process_child example_build (\<lambda>f. True) [''prog'', ''-x''] example_opts example_pipes example_proc"
  note c1 = conjunct1 [OF th, unfolded Let_def]
  from c1 small have "env ?c ''ZZUF_SEED'' = Some (dec_digits (unat (seed example_opts)))"
    by blast
  moreover from c1 have "env ?c ''ZZUF_MINRATIO'' = Some (fmt_g (LIBC example_build) (minratio example_opts))"
    by blast
  moreover from c1 have "env ?c ''ZZUF_MAXRATIO'' = Some (fmt_g (LIBC example_build) (maxratio example_opts))"
    by blast
  ultimately have 1:
    "let c = ?c
     in env c ''ZZUF_SEED'' = Some ''42'' \<and> env c ''ZZUF_MINRATIO'' = Some ''0.1''
       \<and> env c ''ZZUF_MAXRATIO'' = Some ''0.9''"
    by (simp only: Let_def vals simp_thms)
  note c2 = mp [OF conjunct2 [OF th] w]
  from c2 small have "env p1 ''ZZUF_SEED'' = Some (dec_digits (unat (seed example_opts)))"
    by blast
  moreover from c2 have "env p1 ''ZZUF_MINRATIO'' = Some (fmt_g (crt example_os) (minratio example_opts))"
    by blast
  moreover from c2 have "env p1 ''ZZUF_MAXRATIO'' = Some (fmt_g (crt example_os) (maxratio example_opts))"
    by blast
  ultimately have 2:
    "env p1 ''ZZUF_SEED'' = Some ''42'' \<and> env p1 ''ZZUF_MINRATIO'' = Some ''0.1''
       \<and> env p1 ''ZZUF_MAXRATIO'' = Some ''0.9''"
    by (simp only: vals simp_thms)
  from w have 3: "run_process_amd64 example_os ''libzzuf.dll'' (\<lambda>n. 1000 + n) example_pinfo example_opts
                  example_win_child example_pipes empty_proc example_mem = Some (100, c, p1, m1, t)"
    by (simp add: run_process_amd64_def)
  from small 1 2 3 show ?thesis
    by blast
qed

text \<open>
  Claim C8 as stated says that the text of the seed is the decimal text of the seed,
  and that the text of a ratio is one that reads back as the ratio. The seed
  4294967295 of an unsigned field gives \<^verbatim>\<open>ZZUF_SEED=-1\<close>. A text that reads back as
  its number belongs to one number only; the doubles 0.5 and 0.5 + 2^-30 are different
  numbers and both give \<^verbatim>\<open>ZZUF_MINRATIO=0.5\<close>.
\<close>

theorem ratio_text_not_round_trip:
  "is_binary64 (minratio half_opts) \<and> is_binary64 (minratio above_half_opts)
   \<and> double_value (minratio half_opts) = Some (1 / 2)
   \<and> double_value (minratio above_half_opts) = Some (1 / 2 + 1 / 2 ^ 30)
   \<and> env (run_process_child example_build (\<lambda>f. True) [''prog'', ''-x''] half_opts example_pipes empty_proc)
        ''ZZUF_MINRATIO'' = Some ''0.5''
   \<and> env (run_process_child example_build (\<lambda>f. True) [''prog'', ''-x''] above_half_opts example_pipes empty_proc)
        ''ZZUF_MINRATIO'' = Some ''0.5''
   \<and> unat (seed big_seed_opts) = 4294967295
   \<and> env (run_process_child example_build (\<lambda>f. True) [''prog'', ''-x''] big_seed_opts example_pipes empty_proc)
        ''ZZUF_SEED'' = Some ''-1''"
  using fmt_g_half fmt_g_above_half printf_i_big
  by (simp add: env_child Let_def half_opts_def above_half_opts_def big_seed_opts_def example_opts_def
        example_build_def del: fmt_g.simps)

end
